theory Spec2Isabelle
  imports Complex_Main
begin

section \<open>Upload pre-validation (src/lib/supabase.ts, validation part)\<close>

text \<open>
  The browser \<open>File\<close> object as far as the validation reads it, and the metadata record
  of \<open>types/custom.ts\<close>. Sizes are byte counts. The category is kept as the string that
  arrives in the request (the server builds the metadata from untyped JSON), so the
  model also covers categories other than \<open>person\<close> and \<open>item\<close>.
\<close>

record File =
  file_name :: string
  file_size :: int
  file_type :: string

record FileUploadMetadata =
  fm_id :: string
  fm_file :: File
  fm_category :: string
  fm_preview :: string
  fm_size :: int
  fm_uploadedAt :: int

text \<open>The union of error codes declared in \<open>ValidationError\<close>.\<close>

datatype error_code =
    INVALID_CATEGORY
  | DUPLICATE_CATEGORY
  | CATEGORY_LIMIT_EXCEEDED
  | FILE_SIZE_EXCEEDED
  | INVALID_FILE_TYPE
  | TOO_MANY_ITEMS
  | PERSON_REQUIRED
  | UPLOAD_ERROR
  | PERMISSION_DENIED
  | NETWORK_ERROR

text \<open>
  The user-facing messages are fixed Korean sentences in the source; each constructor
  stands for one of them, the three category messages carrying the limit that the
  template interpolates.
\<close>

datatype message =
    UnsupportedFileTypeMessage
  | FileTooLargeMessage
  | PersonMinMessage int
  | PersonMaxMessage int
  | ItemsMaxMessage int

record ValidationError =
  err_field :: string
  err_message :: message
  err_code :: error_code

record UploadValidationResult =
  isValid :: bool
  errors :: "ValidationError list"

text \<open>\<open>UPLOAD_CONSTRAINTS\<close> and \<open>FILE_CONSTRAINTS\<close>.\<close>

definition person_min :: int where "person_min = 1"
definition person_max :: int where "person_max = 1"
definition items_min :: int where "items_min = 0"
definition items_max :: int where "items_max = 3"

definition maxSize :: int where "maxSize = 5 * 1024 * 1024"
definition hardMaxSize :: int where "hardMaxSize = 8 * 1024 * 1024"
definition allowedTypes :: "string list" where
  "allowedTypes = [''image/jpeg'', ''image/jpg'', ''image/png'']"

definition validateFile :: "File \<Rightarrow> ValidationError list" where
  "validateFile file =
     (let errors0 = [];
          errors1 = (if file_type file \<notin> set allowedTypes
                     then errors0 @ [\<lparr>err_field = ''file'',
                                      err_message = UnsupportedFileTypeMessage,
                                      err_code = INVALID_FILE_TYPE\<rparr>]
                     else errors0);
          errors2 = (if file_size file > hardMaxSize
                     then errors1 @ [\<lparr>err_field = ''file'',
                                      err_message = FileTooLargeMessage,
                                      err_code = FILE_SIZE_EXCEEDED\<rparr>]
                     else errors1)
      in errors2)"

definition validateCategoryConstraints :: "FileUploadMetadata list \<Rightarrow> ValidationError list" where
  "validateCategoryConstraints files =
     (let personCount = int (length (filter (\<lambda>f. fm_category f = ''person'') files));
          itemCount = int (length (filter (\<lambda>f. fm_category f = ''item'') files));
          errors0 = [];
          errors1 = (if personCount < person_min
                     then errors0 @ [\<lparr>err_field = ''person'',
                                      err_message = PersonMinMessage person_min,
                                      err_code = CATEGORY_LIMIT_EXCEEDED\<rparr>]
                     else errors0);
          errors2 = (if personCount > person_max
                     then errors1 @ [\<lparr>err_field = ''person'',
                                      err_message = PersonMaxMessage person_max,
                                      err_code = CATEGORY_LIMIT_EXCEEDED\<rparr>]
                     else errors1);
          errors3 = (if itemCount > items_max
                     then errors2 @ [\<lparr>err_field = ''items'',
                                      err_message = ItemsMaxMessage items_max,
                                      err_code = CATEGORY_LIMIT_EXCEEDED\<rparr>]
                     else errors2)
      in errors3)"

text \<open>
  \<open>validateUpload\<close>: the \<open>for\<close> loop pushes every file's errors in order, then the
  category errors are appended.
\<close>

definition validateUpload :: "FileUploadMetadata list \<Rightarrow> UploadValidationResult" where
  "validateUpload files =
     (let errors1 = fold (\<lambda>file acc. acc @ validateFile (fm_file file)) files [];
          categoryErrors = validateCategoryConstraints files;
          errors2 = errors1 @ categoryErrors
      in \<lparr>isValid = (length errors2 = 0), errors = errors2\<rparr>)"


section \<open>Retry and timeout policy (src/lib/gemini/performance.ts)\<close>

text \<open>
  All quantities of the configuration and all clock readings are whole milliseconds
  (\<open>int\<close>); the retry delay, which carries a random jitter, is a rational.
\<close>

record PerformanceConfig =
  maxDurationMs :: int
  retryAttempts :: int
  retryDelayMs :: int
  timeoutMs :: int

definition DEFAULT_PERFORMANCE_CONFIG :: PerformanceConfig where
  "DEFAULT_PERFORMANCE_CONFIG =
     \<lparr>maxDurationMs = 60000, retryAttempts = 2, retryDelayMs = 2000, timeoutMs = 30000\<rparr>"

record PerformanceMonitor =
  config :: PerformanceConfig
  startTime :: int

text \<open>
  What one invocation of the wrapped operation does under \<open>createTimeoutPromise\<close>: it
  fulfils with a value, it rejects (or throws) with an error whose message is given, or
  it does not settle before \<open>timeoutMs\<close> have passed and the timer rejects.
\<close>

datatype 'a settle = Fulfilled 'a | Rejected string | Unsettled

text \<open>
  The surroundings of one run: \<open>clock k\<close> is the value of the \<open>k\<close>-th \<open>Date.now()\<close>
  read, \<open>operation k\<close> the behaviour of the \<open>k\<close>-th invocation of the wrapped
  operation, \<open>random k\<close> the \<open>k\<close>-th \<open>Math.random()\<close> draw, and \<open>retried a\<close> what the
  \<open>onRetry\<close> callback does when it is called after the failed attempt \<open>a\<close>: it returns
  (\<open>None\<close>) or throws an error with the given message.
\<close>

record 'a retry_env =
  clock :: "nat \<Rightarrow> int"
  operation :: "nat \<Rightarrow> 'a settle"
  random :: "nat \<Rightarrow> rat"
  retried :: "int \<Rightarrow> string option"

text \<open>Console output, callbacks and waits, in the order they happen.\<close>

datatype retry_event =
    Invoke nat
  | LogCompleted int int
  | WarnFailed int string
  | OnRetry
  | LogRetrying rat
  | Sleep rat

record run_state =
  ticks :: nat
  calls :: nat
  draws :: nat
  events :: "retry_event list"

definition initial_run :: run_state where
  "initial_run = \<lparr>ticks = 0, calls = 0, draws = 0, events = []\<rparr>"




definition start :: "'a retry_env \<Rightarrow> PerformanceMonitor \<Rightarrow> run_state \<Rightarrow> PerformanceMonitor \<times> run_state" where
  "start env m s = (m\<lparr>startTime := clock env (ticks s)\<rparr>, s\<lparr>ticks := ticks s + 1\<rparr>)"

definition getElapsedMs :: "'a retry_env \<Rightarrow> PerformanceMonitor \<Rightarrow> run_state \<Rightarrow> int \<times> run_state" where
  "getElapsedMs env m s = (clock env (ticks s) - startTime m, s\<lparr>ticks := ticks s + 1\<rparr>)"


definition getRemainingMs :: "'a retry_env \<Rightarrow> PerformanceMonitor \<Rightarrow> run_state \<Rightarrow> int \<times> run_state" where
  "getRemainingMs env m s =
     (let (elapsed, s1) = getElapsedMs env m s
      in (max 0 (maxDurationMs (config m) - elapsed), s1))"

definition shouldRetry :: "'a retry_env \<Rightarrow> PerformanceMonitor \<Rightarrow> int \<Rightarrow> run_state \<Rightarrow> bool \<times> run_state" where
  "shouldRetry env m attempt s =
     (if attempt \<ge> retryAttempts (config m) then (False, s)
      else
        let (elapsed, s1) = getElapsedMs env m s;
            estimatedRetryTime = elapsed + retryDelayMs (config m)
        in (estimatedRetryTime < maxDurationMs (config m), s1))"














definition isAcceptableDuration :: "int \<Rightarrow> int \<Rightarrow> bool" where
  "isAcceptableDuration durationMs maxMs = (durationMs \<le> maxMs)"




section \<open>HTTP routes: shared vocabulary\<close>

text \<open>
  The identity provider, the database, the object storage and the generation backend
  are outside the repository. Each of their calls is a field of \<open>world\<close>: a function
  from the call's arguments to what the awaited call does, which is either to return a
  value or to throw. A thrown value is \<open>Some msg\<close> for an \<open>Error\<close> with that message and
  \<open>None\<close> for anything else.
\<close>

datatype 'a outcome = Returned 'a | Thrown "string option"

type_synonym bytes = "nat list"

record User =
  user_id :: string

text \<open>A row of \<open>fit.jobs\<close>; a \<open>null\<close> column is \<open>None\<close>, times are milliseconds since the epoch.\<close>

record Job =
  job_id :: string
  job_user_id :: string
  job_app_id :: string
  job_person_path :: string
  job_item_paths :: "string option list"
  job_pose_id :: "string option"
  job_preview_path :: "string option"
  job_duration_ms :: int
  job_status :: string
  job_created_at :: int

text \<open>A row of \<open>fit.sim_metrics\<close>.\<close>

record Metrics =
  metrics_job_id :: "string option"
  metrics_user_id :: string
  metrics_duration_ms :: int
  metrics_status :: string
  metrics_details :: string
  metrics_created_at :: int

record GenerateRequest =
  gen_personPath :: string
  gen_itemPaths :: "string option list"
  gen_user_id :: string
  gen_user_token :: "string option"

record GeminiResult =
  gem_success :: bool
  gem_imageBuffer :: "bytes option"
  gem_error :: "string option"

text \<open>
  Results of the Supabase client come as a pair of data and error, as the source
  destructures them; an error is represented by its message.
\<close>

record world =
  date_now :: "nat \<Rightarrow> int"
  getUser :: "string option \<Rightarrow> (User option \<times> string option) outcome"
  select_job :: "string \<Rightarrow> (Job option \<times> string option) outcome"
  storage_download :: "string \<Rightarrow> (bytes option \<times> string option) outcome"
  createSignedUrl :: "string \<Rightarrow> int \<Rightarrow> (string option \<times> string option) outcome"
  randomUUID :: string
  generateImage :: "GenerateRequest \<Rightarrow> GeminiResult outcome"
  isLiveMode :: bool
  storage_upload :: "string \<Rightarrow> bytes option \<Rightarrow> string option outcome"
  storage_list :: "string \<Rightarrow> string \<Rightarrow> (string list option \<times> string option) outcome"
  insert_job :: "Job \<Rightarrow> string option outcome"
  insert_metrics :: "Metrics \<Rightarrow> string option outcome"
  ttl_env :: "rat option"

text \<open>Every call issued to an outside service, in order.\<close>

datatype effect =
    CallGetUser "string option"
  | CallSelectJob string
  | CallGenerate GenerateRequest
  | CallUpload string "bytes option"
  | CallList string string
  | CallCreateSignedUrl string int
  | CallDownload string
  | CallInsertJob Job
  | CallInsertMetrics Metrics

record handler_state =
  reads :: nat
  trace :: "effect list"

definition initial_state :: handler_state where
  "initial_state = \<lparr>reads = 0, trace = []\<rparr>"

definition call :: "effect \<Rightarrow> handler_state \<Rightarrow> handler_state" where
  "call e s = s\<lparr>trace := trace s @ [e]\<rparr>"

text \<open>\<open>Date.now()\<close> and \<open>new Date()\<close>: the next reading of the clock.\<close>

definition read_clock :: "world \<Rightarrow> handler_state \<Rightarrow> int \<times> handler_state" where
  "read_clock w s = (date_now w (reads s), s\<lparr>reads := reads s + 1\<rparr>)"

text \<open>
  JSON bodies. \<open>JIso t\<close> is the ISO-8601 string of the instant \<open>t\<close>, \<open>JRow\<close> the object
  of a job row.
\<close>

datatype json = JNull | JBool bool | JNum int | JStr string | JIso int | JRow Job

datatype header_value = HStr string | HLength nat | HAttachmentNamedAt int

datatype response =
    Json int "(string \<times> json) list"
  | Binary int "(string \<times> header_value) list" bytes

fun status_of :: "response \<Rightarrow> int" where
  "status_of (Json code entries) = code"
| "status_of (Binary code headers content) = code"

record 'b request =
  authorization :: "string option"
  body :: "'b option"

text \<open>String helpers of JavaScript.\<close>

definition startsWith :: "string \<Rightarrow> string \<Rightarrow> bool" where
  "startsWith str pre = (take (length pre) str = pre)"

fun split_on :: "char \<Rightarrow> string \<Rightarrow> string list" where
  "split_on c [] = [[]]"
| "split_on c (x # xs) =
     (if x = c then [] # split_on c xs
      else (case split_on c xs of p # ps \<Rightarrow> (x # p) # ps | [] \<Rightarrow> [[x]]))"

definition nth_opt :: "'a list \<Rightarrow> nat \<Rightarrow> 'a option" where
  "nth_opt xs i = (if i < length xs then Some (xs ! i) else None)"

text \<open>\<open>authHeader.split(' ')[1]\<close>\<close>

definition token_of :: "string \<Rightarrow> string option" where
  "token_of authHeader = nth_opt (split_on CHR '' '' authHeader) 1"

text \<open>Truthiness of an optional string: \<open>null\<close>, \<open>undefined\<close> and \<open>''\<close> are falsy.\<close>

definition truthy :: "string option \<Rightarrow> string option" where
  "truthy v = (case v of None \<Rightarrow> None | Some str \<Rightarrow> if str = [] then None else Some str)"

text \<open>\<open>v || dflt\<close> on optional strings.\<close>

definition or_else :: "string option \<Rightarrow> string \<Rightarrow> string" where
  "or_else v dflt = (case truthy v of None \<Rightarrow> dflt | Some str \<Rightarrow> str)"

text \<open>An optional string inside a template literal.\<close>

definition interpolate :: "string option \<Rightarrow> string" where
  "interpolate v = (case v of None \<Rightarrow> ''undefined'' | Some str \<Rightarrow> str)"

text \<open>
  \<open>new Date(t).toISOString()\<close> throws a \<open>RangeError\<close> outside the range of valid dates.
\<close>

definition toISOString :: "int \<Rightarrow> string + json" where
  "toISOString t =
     (if - 8640000000000000 \<le> t \<and> t \<le> 8640000000000000 then Inr (JIso t)
      else Inl ''Invalid time value'')"

text \<open>
  \<open>Math.max(60, Math.floor(days * 86400))\<close>, the expression of all three routes that mint
  a signed URL. The day count is the number that \<open>Number(...)\<close> reads from the
  environment variable, taken as an exact rational.
\<close>

definition expiresIn_of :: "rat \<Rightarrow> int" where
  "expiresIn_of days = max 60 \<lfloor>days * 86400\<rfloor>"

section \<open>Share route (src/app/api/fit/share/route.ts)\<close>

text \<open>
  The module refuses to load without \<open>NEXT_PUBLIC_SHARE_LINK_TTL_DAYS\<close>, so the handler
  runs with a configured value \<open>ttlDays\<close>. The helper functions below follow the handler
  from top to bottom; \<open>Inl\<close> is an exception on its way to the \<open>catch\<close> clause.
\<close>

definition share_owned :: "world \<Rightarrow> rat \<Rightarrow> Job \<Rightarrow> handler_state \<Rightarrow> (string option + response) \<times> handler_state" where
  "share_owned w ttlDays job s =
     (case truthy (job_preview_path job) of
        None \<Rightarrow> (Inr (Json 404 [(''error'', JStr ''No preview available for this job'')]), s)
      | Some path \<Rightarrow>
          let days = ttlDays;
              expiresIn = expiresIn_of days;
              s1 = call (CallCreateSignedUrl path expiresIn) s
          in case createSignedUrl w path expiresIn of
               Thrown e \<Rightarrow> (Inl e, s1)
             | Returned (signedUrlData, signedUrlError) \<Rightarrow>
                 (case (signedUrlError, signedUrlData) of
                    (None, Some signedUrl) \<Rightarrow>
                      let (t, s2) = read_clock w s1
                      in (case toISOString (t + expiresIn * 1000) of
                            Inl e \<Rightarrow> (Inl (Some e), s2)
                          | Inr expiresAt \<Rightarrow>
                              (Inr (Json 200 [(''success'', JBool True),
                                              (''signedUrl'', JStr signedUrl),
                                              (''expiresAt'', expiresAt)]), s2))
                  | _ \<Rightarrow>
                      (Inr (Json 500 [(''success'', JBool False),
                                      (''error'', JStr ''Failed to create shareable link''),
                                      (''details'', JStr (or_else signedUrlError ''Unknown error''))]),
                       s1)))"

definition share_job :: "world \<Rightarrow> rat \<Rightarrow> User \<Rightarrow> string \<Rightarrow> handler_state \<Rightarrow> (string option + response) \<times> handler_state" where
  "share_job w ttlDays user jid s =
     (let s1 = call (CallSelectJob jid) s
      in case select_job w jid of
           Thrown e \<Rightarrow> (Inl e, s1)
         | Returned (data, jobError) \<Rightarrow>
             (case (jobError, data) of
                (None, Some job) \<Rightarrow>
                  if job_user_id job \<noteq> user_id user
                  then (Inr (Json 403 [(''error'', JStr ''Access denied'')]), s1)
                  else share_owned w ttlDays job s1
              | _ \<Rightarrow> (Inr (Json 404 [(''error'', JStr ''Job not found'')]), s1)))"

text \<open>
  The front part shared by the two \<open>POST\<close> routes that take \<open>{job_id}\<close> in the body:
  header, token, identity, body, \<open>job_id\<close>; \<open>k\<close> is the rest of the handler.
\<close>

definition post_prelude ::
  "world \<Rightarrow> string option request \<Rightarrow> (User \<Rightarrow> string \<Rightarrow> handler_state \<Rightarrow> (string option + response) \<times> handler_state)
     \<Rightarrow> handler_state \<Rightarrow> (string option + response) \<times> handler_state" where
  "post_prelude w req k s =
     (case authorization req of
        None \<Rightarrow> (Inr (Json 401 [(''error'', JStr ''Missing or invalid authorization header'')]), s)
      | Some authHeader \<Rightarrow>
          if \<not> startsWith authHeader ''Bearer ''
          then (Inr (Json 401 [(''error'', JStr ''Missing or invalid authorization header'')]), s)
          else
            let token = token_of authHeader;
                s1 = call (CallGetUser token) s
            in case getUser w token of
                 Thrown e \<Rightarrow> (Inl e, s1)
               | Returned (userData, authError) \<Rightarrow>
                   (case (authError, userData) of
                      (None, Some user) \<Rightarrow>
                        (case body req of
                           None \<Rightarrow> (Inl (Some ''Unexpected end of JSON input''), s1)
                         | Some job_id_field \<Rightarrow>
                             (case truthy job_id_field of
                                None \<Rightarrow> (Inr (Json 400 [(''error'', JStr ''job_id is required'')]), s1)
                              | Some jid \<Rightarrow> k user jid s1))
                    | _ \<Rightarrow> (Inr (Json 401 [(''error'', JStr ''Invalid or expired token'')]), s1)))"

definition share_POST :: "world \<Rightarrow> rat \<Rightarrow> string option request \<Rightarrow> response \<times> handler_state" where
  "share_POST w ttlDays req =
     (case post_prelude w req (share_job w ttlDays) initial_state of
        (Inr resp, s) \<Rightarrow> (resp, s)
      | (Inl e, s) \<Rightarrow>
          (Json 500 [(''success'', JBool False),
                     (''error'', JStr ''Internal server error during sharing'')], s))"


section \<open>Preview route (POST, raw bytes of the stored preview)\<close>

definition preview_owned :: "world \<Rightarrow> Job \<Rightarrow> handler_state \<Rightarrow> (string option + response) \<times> handler_state" where
  "preview_owned w job s =
     (case truthy (job_preview_path job) of
        None \<Rightarrow> (Inr (Json 404 [(''error'', JStr ''No preview available for this job'')]), s)
      | Some path \<Rightarrow>
          let s1 = call (CallDownload path) s
          in case storage_download w path of
               Thrown e \<Rightarrow> (Inl e, s1)
             | Returned (imageData, downloadError) \<Rightarrow>
                 (case (downloadError, imageData) of
                    (None, Some buffer) \<Rightarrow>
                      (Inr (Binary 200 [(''Content-Type'', HStr ''image/webp''),
                                        (''Cache-Control'', HStr ''private, no-store''),
                                        (''Content-Length'', HLength (length buffer))] buffer), s1)
                  | _ \<Rightarrow> (Inr (Json 500 [(''error'', JStr ''Failed to load preview image'')]), s1)))"

definition preview_job :: "world \<Rightarrow> User \<Rightarrow> string \<Rightarrow> handler_state \<Rightarrow> (string option + response) \<times> handler_state" where
  "preview_job w user jid s =
     (let s1 = call (CallSelectJob jid) s
      in case select_job w jid of
           Thrown e \<Rightarrow> (Inl e, s1)
         | Returned (data, jobError) \<Rightarrow>
             (case (jobError, data) of
                (None, Some job) \<Rightarrow>
                  if job_user_id job \<noteq> user_id user
                  then (Inr (Json 403 [(''error'', JStr ''Access denied'')]), s1)
                  else preview_owned w job s1
              | _ \<Rightarrow> (Inr (Json 404 [(''error'', JStr ''Job not found'')]), s1)))"

definition preview_POST :: "world \<Rightarrow> string option request \<Rightarrow> response \<times> handler_state" where
  "preview_POST w req =
     (case post_prelude w req (preview_job w) initial_state of
        (Inr resp, s) \<Rightarrow> (resp, s)
      | (Inl e, s) \<Rightarrow>
          (Json 500 [(''error'', JStr ''Internal server error during preview loading'')], s))"

section \<open>Download route (src/app/api/fit/download/[job_id]/route.ts)\<close>

text \<open>
  The file name of the attachment is built from the clock reading at the time of the
  download (a fixed prefix, the timestamp, \<open>.webp\<close>); \<open>HAttachmentNamedAt t\<close> stands for
  that header value.
\<close>

definition download_owned :: "world \<Rightarrow> Job \<Rightarrow> handler_state \<Rightarrow> (string option + response) \<times> handler_state" where
  "download_owned w job s =
     (case truthy (job_preview_path job) of
        None \<Rightarrow> (Inr (Json 404 [(''error'', JStr ''No preview available for this job'')]), s)
      | Some path \<Rightarrow>
          let s1 = call (CallDownload path) s
          in case storage_download w path of
               Thrown e \<Rightarrow> (Inl e, s1)
             | Returned (fileData, downloadError) \<Rightarrow>
                 (case (downloadError, fileData) of
                    (None, Some buffer) \<Rightarrow>
                      let (now, s2) = read_clock w s1
                      in (Inr (Binary 200 [(''Content-Type'', HStr ''image/webp''),
                                           (''Content-Disposition'', HAttachmentNamedAt now),
                                           (''Content-Length'', HLength (length buffer)),
                                           (''Cache-Control'', HStr ''no-cache, no-store, must-revalidate''),
                                           (''Pragma'', HStr ''no-cache''),
                                           (''Expires'', HStr ''0'')] buffer), s2)
                  | _ \<Rightarrow> (Inr (Json 500 [(''error'', JStr ''Failed to download file'')]), s1)))"

definition download_job :: "world \<Rightarrow> User \<Rightarrow> string \<Rightarrow> handler_state \<Rightarrow> (string option + response) \<times> handler_state" where
  "download_job w user jobId s =
     (let s1 = call (CallSelectJob jobId) s
      in case select_job w jobId of
           Thrown e \<Rightarrow> (Inl e, s1)
         | Returned (data, jobError) \<Rightarrow>
             (case (jobError, data) of
                (None, Some job) \<Rightarrow>
                  if job_user_id job \<noteq> user_id user
                  then (Inr (Json 403 [(''error'', JStr ''Access denied'')]), s1)
                  else download_owned w job s1
              | _ \<Rightarrow> (Inr (Json 404 [(''error'', JStr ''Job not found'')]), s1)))"

definition download_try :: "world \<Rightarrow> string \<Rightarrow> unit request \<Rightarrow> handler_state \<Rightarrow> (string option + response) \<times> handler_state" where
  "download_try w jobId req s =
     (if jobId = [] then (Inr (Json 400 [(''error'', JStr ''Job ID is required'')]), s)
      else
        case authorization req of
          None \<Rightarrow> (Inr (Json 401 [(''error'', JStr ''Invalid or expired token'')]), s)
        | Some authHeader \<Rightarrow>
            if \<not> startsWith authHeader ''Bearer ''
            then (Inr (Json 401 [(''error'', JStr ''Invalid or expired token'')]), s)
            else
              let token = token_of authHeader;
                  s1 = call (CallGetUser token) s
              in case getUser w token of
                   Thrown e \<Rightarrow> (Inl e, s1)
                 | Returned (userData, userError) \<Rightarrow>
                     (case (userError, userData) of
                        (None, Some user) \<Rightarrow> download_job w user jobId s1
                      | _ \<Rightarrow> (Inr (Json 401 [(''error'', JStr ''Invalid or expired token'')]), s1)))"

definition download_GET :: "world \<Rightarrow> string \<Rightarrow> unit request \<Rightarrow> response \<times> handler_state" where
  "download_GET w jobId req =
     (case download_try w jobId req initial_state of
        (Inr resp, s) \<Rightarrow> (resp, s)
      | (Inl e, s) \<Rightarrow> (Json 500 [(''error'', JStr ''Internal server error'')], s))"

section \<open>View-job route (GET, the job row with a signed URL)\<close>

text \<open>
  The signed URL is made only \<open>if (job.preview_path)\<close>, inside a \<open>try\<close> of its own whose
  \<open>catch\<close> only logs: whatever fails there leaves the variables as they are at that
  point, and the response is the success response all the same.
\<close>

definition view_sign :: "world \<Rightarrow> rat \<Rightarrow> Job \<Rightarrow> handler_state \<Rightarrow> (json \<times> json) \<times> handler_state" where
  "view_sign w ttlDays job s =
     (case truthy (job_preview_path job) of
        None \<Rightarrow> ((JNull, JNull), s)
      | Some path \<Rightarrow>
          let days = ttlDays;
              expiresIn = expiresIn_of days;
              s1 = call (CallCreateSignedUrl path expiresIn) s
          in case createSignedUrl w path expiresIn of
               Thrown e \<Rightarrow> ((JNull, JNull), s1)
             | Returned (signedUrlData, signedUrlError) \<Rightarrow>
                 (case signedUrlError of
                    Some e \<Rightarrow> ((JNull, JNull), s1)
                  | None \<Rightarrow>
                      (case signedUrlData of
                         None \<Rightarrow> ((JNull, JNull), s1)
                       | Some signedUrl \<Rightarrow>
                           let (t, s2) = read_clock w s1
                           in (case toISOString (t + expiresIn * 1000) of
                                 Inl e \<Rightarrow> ((JStr signedUrl, JNull), s2)
                               | Inr expiresAt \<Rightarrow> ((JStr signedUrl, expiresAt), s2)))))"

definition view_job :: "world \<Rightarrow> rat \<Rightarrow> User \<Rightarrow> string \<Rightarrow> handler_state \<Rightarrow> (string option + response) \<times> handler_state" where
  "view_job w ttlDays user jobId s =
     (let s1 = call (CallSelectJob jobId) s
      in case select_job w jobId of
           Thrown e \<Rightarrow> (Inl e, s1)
         | Returned (data, jobError) \<Rightarrow>
             (case (jobError, data) of
                (None, Some job) \<Rightarrow>
                  if job_user_id job \<noteq> user_id user
                  then (Inr (Json 403 [(''success'', JBool False), (''error'', JStr ''Access denied'')]), s1)
                  else
                    let ((signedUrl, expiresAt), s2) = view_sign w ttlDays job s1
                    in (Inr (Json 200 [(''success'', JBool True),
                                       (''job'', JRow job),
                                       (''signedUrl'', signedUrl),
                                       (''expiresAt'', expiresAt)]), s2)
              | _ \<Rightarrow> (Inr (Json 404 [(''success'', JBool False), (''error'', JStr ''Job not found'')]), s1)))"

definition view_try :: "world \<Rightarrow> rat \<Rightarrow> string \<Rightarrow> unit request \<Rightarrow> handler_state \<Rightarrow> (string option + response) \<times> handler_state" where
  "view_try w ttlDays jobId req s =
     (if jobId = []
      then (Inr (Json 400 [(''success'', JBool False), (''error'', JStr ''Job ID is required'')]), s)
      else
        case authorization req of
          None \<Rightarrow> (Inr (Json 401 [(''error'', JStr ''Missing or invalid authorization header'')]), s)
        | Some authHeader \<Rightarrow>
            if \<not> startsWith authHeader ''Bearer ''
            then (Inr (Json 401 [(''error'', JStr ''Missing or invalid authorization header'')]), s)
            else
              let token = token_of authHeader;
                  s1 = call (CallGetUser token) s
              in case getUser w token of
                   Thrown e \<Rightarrow> (Inl e, s1)
                 | Returned (userData, authError) \<Rightarrow>
                     (case (authError, userData) of
                        (None, Some user) \<Rightarrow> view_job w ttlDays user jobId s1
                      | _ \<Rightarrow> (Inr (Json 401 [(''error'', JStr ''Invalid or expired token'')]), s1)))"

definition view_GET :: "world \<Rightarrow> rat \<Rightarrow> string \<Rightarrow> unit request \<Rightarrow> response \<times> handler_state" where
  "view_GET w ttlDays jobId req =
     (case view_try w ttlDays jobId req initial_state of
        (Inr resp, s) \<Rightarrow> (resp, s)
      | (Inl e, s) \<Rightarrow>
          (Json 500 [(''success'', JBool False), (''error'', JStr ''Internal server error'')], s))"


section \<open>Job submission route (src/app/api/fit/simulate/route.ts)\<close>

record SimulateRequest =
  req_personPath :: "string option"
  req_itemPaths :: "string option list option"

text \<open>
  \<open>recordSimulationMetrics\<close>: one insert into \<open>sim_metrics\<close>; an error returned by the
  insert and an exception are both only logged.
\<close>

definition recordSimulationMetrics ::
  "world \<Rightarrow> string option \<Rightarrow> string \<Rightarrow> int \<Rightarrow> string \<Rightarrow> string \<Rightarrow> handler_state \<Rightarrow> handler_state" where
  "recordSimulationMetrics w jobId userId durationMs status details s =
     (let (created, s1) = read_clock w s;
          row = \<lparr>metrics_job_id = jobId, metrics_user_id = userId,
                 metrics_duration_ms = durationMs, metrics_status = status,
                 metrics_details = details, metrics_created_at = created\<rparr>;
          s2 = call (CallInsertMetrics row) s1
      in case insert_metrics w row of
           Returned None \<Rightarrow> s2
         | Returned (Some e) \<Rightarrow> s2
         | Thrown e \<Rightarrow> s2)"

text \<open>
  What leaves the \<open>try\<close> block: a response, or an exception together with the values
  that the variables \<open>user\<close> and \<open>jobId\<close> have when it is thrown.
\<close>

datatype attempt = Responded response | Raised "string option" "User option" "string option"

text \<open>\<open>!path || !path.startsWith(`${user.id}/`)\<close>, negated.\<close>

definition owned :: "string \<Rightarrow> string option \<Rightarrow> bool" where
  "owned uid path =
     (case path of
        None \<Rightarrow> False
      | Some p \<Rightarrow> \<not> (p = [] \<or> \<not> startsWith p (uid @ ''/'')))"

definition quote :: string where
  "quote = [CHR 0x22]"

definition failure_body :: "string \<Rightarrow> string option \<Rightarrow> int \<Rightarrow> (string \<times> json) list" where
  "failure_body err details duration =
     [(''success'', JBool False), (''error'', JStr err)] @
     (case details of None \<Rightarrow> [] | Some d \<Rightarrow> [(''details'', JStr d)]) @
     [(''duration_ms'', JNum duration)]"

definition simulate_record ::
  "world \<Rightarrow> int \<Rightarrow> User \<Rightarrow> string \<Rightarrow> string option list \<Rightarrow> string \<Rightarrow> string \<Rightarrow> string \<Rightarrow> handler_state
     \<Rightarrow> attempt \<times> handler_state" where
  "simulate_record w start_time user personPath itemPaths jobId previewPath previewUrl s =
     (let status = (if isLiveMode w then ''completed'' else ''completed_stub'');
          (now, s1) = read_clock w s;
          duration = now - start_time;
          (created, s2) = read_clock w s1;
          row = \<lparr>job_id = jobId, job_user_id = user_id user, job_app_id = ''fit'',
                 job_person_path = personPath, job_item_paths = itemPaths,
                 job_pose_id = None, job_preview_path = Some previewPath,
                 job_duration_ms = duration, job_status = status, job_created_at = created\<rparr>;
          s3 = call (CallInsertJob row) s2
      in case insert_job w row of
           Thrown e \<Rightarrow> (Raised e (Some user) (Some jobId), s3)
         | Returned jobInsertError \<Rightarrow>
             let s4 = recordSimulationMetrics w (Some jobId) (user_id user) duration status
                        ''Simulation completed'' s3
             in (Responded (Json 200 [(''success'', JBool True),
                                      (''previewUrl'', JStr previewUrl),
                                      (''jobId'', JStr jobId),
                                      (''duration_ms'', JNum duration)]), s4))"

text \<open>
  \<open>Number(process.env.NEXT_PUBLIC_SHARE_LINK_TTL_DAYS || '1')\<close>: an unset or empty
  variable counts as one day.
\<close>

definition env_days :: "world \<Rightarrow> rat" where
  "env_days w = (case ttl_env w of None \<Rightarrow> 1 | Some d \<Rightarrow> d)"

definition simulate_sign ::
  "world \<Rightarrow> int \<Rightarrow> User \<Rightarrow> string \<Rightarrow> string option list \<Rightarrow> string \<Rightarrow> string \<Rightarrow> handler_state
     \<Rightarrow> attempt \<times> handler_state" where
  "simulate_sign w start_time user personPath itemPaths jobId previewPath s =
     (let days = env_days w;
          expiresIn = expiresIn_of days;
          s1 = call (CallCreateSignedUrl previewPath expiresIn) s
      in case createSignedUrl w previewPath expiresIn of
           Thrown e \<Rightarrow> (Raised e (Some user) (Some jobId), s1)
         | Returned (signedUrlData, signedUrlError) \<Rightarrow>
             (case (signedUrlError, signedUrlData) of
                (None, Some signedUrl) \<Rightarrow>
                  simulate_record w start_time user personPath itemPaths jobId previewPath signedUrl s1
              | _ \<Rightarrow>
                  let (now, s2) = read_clock w s1;
                      duration = now - start_time;
                      s3 = recordSimulationMetrics w (Some jobId) (user_id user) duration ''error''
                             (''Signed URL creation failed: '' @ interpolate signedUrlError) s2
                  in (Responded (Json 500 (failure_body ''Failed to create preview URL''
                                             (Some (or_else signedUrlError ''Unknown error'')) duration)),
                      s3)))"

definition simulate_verify ::
  "world \<Rightarrow> int \<Rightarrow> User \<Rightarrow> string \<Rightarrow> string option list \<Rightarrow> string \<Rightarrow> string \<Rightarrow> handler_state
     \<Rightarrow> attempt \<times> handler_state" where
  "simulate_verify w start_time user personPath itemPaths jobId previewPath s =
     (let s1 = call (CallList (user_id user) (jobId @ ''.webp'')) s
      in case storage_list w (user_id user) (jobId @ ''.webp'') of
           Thrown e \<Rightarrow> (Raised e (Some user) (Some jobId), s1)
         | Returned (fileData, fileCheckError) \<Rightarrow>
             if fileCheckError \<noteq> None \<or> fileData = None \<or> fileData = Some []
             then
               let (now, s2) = read_clock w s1;
                   duration = now - start_time;
                   s3 = recordSimulationMetrics w (Some jobId) (user_id user) duration ''error''
                          ''Preview image upload verification failed'' s2
               in (Responded (Json 500 (failure_body ''Failed to verify preview image storage''
                                          (Some ''Preview image was not found after upload'') duration)),
                   s3)
             else simulate_sign w start_time user personPath itemPaths jobId previewPath s1)"

definition simulate_store ::
  "world \<Rightarrow> int \<Rightarrow> User \<Rightarrow> string \<Rightarrow> string option list \<Rightarrow> string \<Rightarrow> GeminiResult \<Rightarrow> handler_state
     \<Rightarrow> attempt \<times> handler_state" where
  "simulate_store w start_time user personPath itemPaths jobId geminiResult s =
     (let previewPath = user_id user @ ''/'' @ jobId @ ''.webp'';
          s1 = call (CallUpload previewPath (gem_imageBuffer geminiResult)) s
      in case storage_upload w previewPath (gem_imageBuffer geminiResult) of
           Thrown e \<Rightarrow> (Raised e (Some user) (Some jobId), s1)
         | Returned (Some uploadError) \<Rightarrow>
             let (now, s2) = read_clock w s1;
                 duration = now - start_time;
                 s3 = recordSimulationMetrics w (Some jobId) (user_id user) duration ''error''
                        (''Storage upload failed: '' @ uploadError) s2
             in (Responded (Json 500 (failure_body ''Failed to store preview image''
                                        (Some (''Upload to fit-previews bucket failed: '' @ uploadError))
                                        duration)),
                 s3)
         | Returned None \<Rightarrow>
             simulate_verify w start_time user personPath itemPaths jobId previewPath s1)"

definition simulate_generate ::
  "world \<Rightarrow> int \<Rightarrow> string option \<Rightarrow> User \<Rightarrow> string \<Rightarrow> string option list \<Rightarrow> handler_state
     \<Rightarrow> attempt \<times> handler_state" where
  "simulate_generate w start_time token user personPath itemPaths s =
     (let jobId = randomUUID w;
          gen = \<lparr>gen_personPath = personPath, gen_itemPaths = itemPaths,
                 gen_user_id = user_id user, gen_user_token = token\<rparr>;
          s1 = call (CallGenerate gen) s
      in case generateImage w gen of
           Thrown e \<Rightarrow> (Raised e (Some user) (Some jobId), s1)
         | Returned geminiResult \<Rightarrow>
             if \<not> gem_success geminiResult
             then
               let (now, s2) = read_clock w s1;
                   duration = now - start_time;
                   s3 = recordSimulationMetrics w (Some jobId) (user_id user) duration ''error''
                          (''Gemini generation failed: '' @ interpolate (gem_error geminiResult)) s2
               in (Responded (Json 500 (failure_body ''Image generation failed''
                                          (gem_error geminiResult) duration)),
                   s3)
             else simulate_store w start_time user personPath itemPaths jobId geminiResult s1)"

text \<open>
  The two ownership branches end the same way: one \<open>denied\<close> metrics row (without a job
  id), then the 403 response. \<open>which\<close> is \<open>Person\<close> or \<open>Item\<close>, \<open>got\<close> the offending path.
\<close>

definition simulate_denied ::
  "world \<Rightarrow> int \<Rightarrow> User \<Rightarrow> string \<Rightarrow> string option \<Rightarrow> handler_state \<Rightarrow> attempt \<times> handler_state" where
  "simulate_denied w start_time user which got s =
     (let (now, s1) = read_clock w s;
          duration = now - start_time;
          s2 = recordSimulationMetrics w None (user_id user) duration ''denied''
                 (which @ '' path ownership validation failed'') s1
      in (Responded (Json 403
            [(''error'', JStr ''Ownership validation failed''),
             (''details'', JStr (which @ '' path must start with '' @ quote @ user_id user @ ''/'' @
                                  quote @ '' but got: '' @ or_else got ''empty''))]), s2))"

text \<open>
  The ownership checks. The \<open>for\<close> loop over the item paths returns at the first path
  that fails the test, which is what \<open>find\<close> yields.
\<close>

definition simulate_ownership ::
  "world \<Rightarrow> int \<Rightarrow> string option \<Rightarrow> User \<Rightarrow> SimulateRequest \<Rightarrow> handler_state \<Rightarrow> attempt \<times> handler_state" where
  "simulate_ownership w start_time token user req_body s =
     (let person = req_personPath req_body;
          items = (case req_itemPaths req_body of None \<Rightarrow> [] | Some ps \<Rightarrow> ps)
      in case person of
           None \<Rightarrow> simulate_denied w start_time user ''Person'' person s
         | Some p \<Rightarrow>
             if \<not> owned (user_id user) person
             then simulate_denied w start_time user ''Person'' person s
             else
               (case find (\<lambda>itemPath. \<not> owned (user_id user) itemPath) items of
                  Some itemPath \<Rightarrow> simulate_denied w start_time user ''Item'' itemPath s
                | None \<Rightarrow> simulate_generate w start_time token user p items s))"

definition simulate_try ::
  "world \<Rightarrow> int \<Rightarrow> SimulateRequest request \<Rightarrow> handler_state \<Rightarrow> attempt \<times> handler_state" where
  "simulate_try w start_time req s =
     (case authorization req of
        None \<Rightarrow> (Responded (Json 401 [(''error'', JStr ''Missing or invalid authorization header'')]), s)
      | Some authHeader \<Rightarrow>
          if \<not> startsWith authHeader ''Bearer ''
          then (Responded (Json 401 [(''error'', JStr ''Missing or invalid authorization header'')]), s)
          else
            let token = token_of authHeader;
                s1 = call (CallGetUser token) s
            in case getUser w token of
                 Thrown e \<Rightarrow> (Raised e None None, s1)
               | Returned (userData, authError) \<Rightarrow>
                   (case (authError, userData) of
                      (None, Some user) \<Rightarrow>
                        (case body req of
                           None \<Rightarrow> (Raised (Some ''Unexpected end of JSON input'') (Some user) None, s1)
                         | Some req_body \<Rightarrow> simulate_ownership w start_time token user req_body s1)
                    | _ \<Rightarrow> (Responded (Json 401 [(''error'', JStr ''Invalid or expired token'')]), s1)))"

text \<open>The handler: \<open>startTime\<close>, the \<open>try\<close> block, and the \<open>catch\<close> clause.\<close>

definition simulate_POST :: "world \<Rightarrow> SimulateRequest request \<Rightarrow> response \<times> handler_state" where
  "simulate_POST w req =
     (let (start_time, s0) = read_clock w initial_state
      in case simulate_try w start_time req s0 of
           (Responded resp, s) \<Rightarrow> (resp, s)
         | (Raised e user jobId, s) \<Rightarrow>
             let (now, s1) = read_clock w s;
                 duration = now - start_time;
                 s2 = (case user of
                         Some u \<Rightarrow>
                           recordSimulationMetrics w (truthy jobId) (user_id u) duration ''error''
                             (''Error: '' @ (case e of Some msg \<Rightarrow> msg | None \<Rightarrow> ''Unknown error'')) s1
                       | None \<Rightarrow> s1)
             in (Json 500 [(''success'', JBool False),
                           (''error'', JStr ''Internal server error during simulation''),
                           (''duration_ms'', JNum duration)], s2))"

text \<open>Observers of the trace.\<close>

definition metrics_inserts :: "effect list \<Rightarrow> Metrics list" where
  "metrics_inserts tr = concat (map (\<lambda>e. case e of CallInsertMetrics row \<Rightarrow> [row] | _ \<Rightarrow> []) tr)"



text \<open>
  Further observers: the number of metrics inserts issued so far, whether an attempt
  ended in a response, the value of \<open>user\<close> carried by an exception, a field of the
  response of an attempt, whether every
  signed URL requested so far has the given lifetime, and whether the bearer token of a
  request resolves to a user (header well-formed, \<open>getUser\<close> returns a user and no
  error).
\<close>

definition metrics_count :: "handler_state \<Rightarrow> nat" where
  "metrics_count s = length (metrics_inserts (trace s))"

fun responded :: "attempt \<Rightarrow> nat" where
  "responded (Responded resp) = 1"
| "responded (Raised e u j) = 0"

fun raised_user :: "attempt \<Rightarrow> User option option" where
  "raised_user (Responded resp) = None"
| "raised_user (Raised e u j) = Some u"



definition identity_resolved :: "world \<Rightarrow> 'b request \<Rightarrow> bool" where
  "identity_resolved w req =
     (case authorization req of
        None \<Rightarrow> False
      | Some authHeader \<Rightarrow>
          startsWith authHeader ''Bearer '' \<and>
          (case getUser w (token_of authHeader) of
             Returned (Some user, None) \<Rightarrow> True
           | _ \<Rightarrow> False))"

section \<open>Concrete scenarios\<close>

text \<open>
  Two users \<open>u1\<close> and \<open>u2\<close> with tokens \<open>tok1\<close> and \<open>tok2\<close>; job \<open>j1\<close> of \<open>u1\<close> has a
  preview, job \<open>j2\<close> of \<open>u1\<close> has none. Generation, upload, verification and signing
  succeed, the insert into the jobs table fails. The TTL is seven days.
\<close>

definition demo_job :: Job where
  "demo_job =
     \<lparr>job_id = ''j1'', job_user_id = ''u1'', job_app_id = ''fit'',
      job_person_path = ''u1/abc.png'', job_item_paths = [], job_pose_id = None,
      job_preview_path = Some ''u1/j1.webp'', job_duration_ms = 1200,
      job_status = ''completed_stub'', job_created_at = 1700000000000\<rparr>"

definition demo_job_no_preview :: Job where
  "demo_job_no_preview = demo_job\<lparr>job_id := ''j2'', job_preview_path := None\<rparr>"

definition demo_world :: world where
  "demo_world =
     \<lparr>date_now = (\<lambda>k. 1700000000000 + 5 * int k),
      getUser = (\<lambda>t. if t = Some ''tok1'' then Returned (Some \<lparr>user_id = ''u1''\<rparr>, None)
                      else if t = Some ''tok2'' then Returned (Some \<lparr>user_id = ''u2''\<rparr>, None)
                      else Returned (None, Some ''invalid JWT'')),
      select_job = (\<lambda>j. if j = ''j1'' then Returned (Some demo_job, None)
                         else if j = ''j2'' then Returned (Some demo_job_no_preview, None)
                         else Returned (None, Some ''no rows'')),
      storage_download = (\<lambda>p. Returned (Some [1, 2, 3], None)),
      createSignedUrl = (\<lambda>p t. Returned (Some (''https://signed/'' @ p), None)),
      randomUUID = ''j3'',
      generateImage = (\<lambda>g. Returned \<lparr>gem_success = True, gem_imageBuffer = Some [9, 9],
                                        gem_error = None\<rparr>),
      isLiveMode = False,
      storage_upload = (\<lambda>p b. Returned None),
      storage_list = (\<lambda>d n. Returned (Some [n], None)),
      insert_job = (\<lambda>j. Returned (Some ''connection refused'')),
      insert_metrics = (\<lambda>m. Returned None),
      ttl_env = Some 7\<rparr>"

definition demo_submission :: "SimulateRequest request" where
  "demo_submission =
     \<lparr>authorization = Some ''Bearer tok1'',
      body = Some \<lparr>req_personPath = Some ''u1/abc.png'', req_itemPaths = None\<rparr>\<rparr>"

text \<open>
  A retry run: the first invocation rejects, the second never settles, the third would
  fulfil. A candidate upload: a 6 MiB portrait and a small item picture.
\<close>

definition demo_env :: "nat retry_env" where
  "demo_env =
     \<lparr>clock = (\<lambda>k. 1000 + 10 * int k),
      operation = (\<lambda>k. if k = 0 then Rejected ''boom'' else if k = 1 then Unsettled else Fulfilled 7),
      random = (\<lambda>k. 1 / 2),
      retried = (\<lambda>a. None)\<rparr>"

definition demo_monitor :: PerformanceMonitor where
  "demo_monitor = \<lparr>config = DEFAULT_PERFORMANCE_CONFIG, startTime = 1000\<rparr>"

definition demo_upload :: "FileUploadMetadata list" where
  "demo_upload =
     [\<lparr>fm_id = ''a'', fm_file = \<lparr>file_name = ''me.png'', file_size = 6 * 1024 * 1024, file_type = ''image/png''\<rparr>,
       fm_category = ''person'', fm_preview = '''', fm_size = 6 * 1024 * 1024, fm_uploadedAt = 0\<rparr>,
      \<lparr>fm_id = ''b'', fm_file = \<lparr>file_name = ''hat.jpg'', file_size = 1024, file_type = ''image/jpeg''\<rparr>,
       fm_category = ''item'', fm_preview = '''', fm_size = 1024, fm_uploadedAt = 0\<rparr>]"

section \<open>Properties of the upload pre-validation\<close>

lemma fold_push_concat:
  "fold (\<lambda>x acc. acc @ f x) xs ys = ys @ concat (map f xs)"
  by (induction xs arbitrary: ys) simp_all

lemma validateFile_Nil_iff:
  "validateFile file = [] \<longleftrightarrow> file_type file \<in> set allowedTypes \<and> file_size file \<le> hardMaxSize"
  by (auto simp: validateFile_def Let_def)

lemma validateCategoryConstraints_Nil_iff:
  "validateCategoryConstraints files = [] \<longleftrightarrow>
     length (filter (\<lambda>f. fm_category f = ''person'') files) = 1 \<and>
     length (filter (\<lambda>f. fm_category f = ''item'') files) \<le> 3"
proof -
  define p where "p = length (filter (\<lambda>f. fm_category f = ''person'') files)"
  define i where "i = length (filter (\<lambda>f. fm_category f = ''item'') files)"
  have "validateCategoryConstraints files = [] \<longleftrightarrow> \<not> int p < 1 \<and> \<not> int p > 1 \<and> \<not> int i > 3"
    unfolding validateCategoryConstraints_def Let_def person_min_def person_max_def items_max_def
      p_def i_def by simp
  also have "\<dots> \<longleftrightarrow> p = 1 \<and> i \<le> 3" by linarith
  finally show ?thesis unfolding p_def i_def .
qed

lemma errors_validateUpload:
  "errors (validateUpload files) =
     concat (map (\<lambda>f. validateFile (fm_file f)) files) @ validateCategoryConstraints files"
  by (simp add: validateUpload_def Let_def fold_push_concat)

lemma isValid_validateUpload:
  "isValid (validateUpload files) \<longleftrightarrow> errors (validateUpload files) = []"
  by (simp add: validateUpload_def Let_def)

lemma length_validateFile:
  "length (validateFile file) =
     (if file_type file \<in> set allowedTypes then 0 else 1) +
     (if file_size file \<le> hardMaxSize then 0 else 1)"
  by (simp add: validateFile_def Let_def)

lemma length_file_errors:
  "length (concat (map (\<lambda>f. validateFile (fm_file f)) files)) =
     length (filter (\<lambda>f. file_type (fm_file f) \<notin> set allowedTypes) files) +
     length (filter (\<lambda>f. file_size (fm_file f) > hardMaxSize) files)"
  by (induction files) (auto simp: length_validateFile)

lemma length_category_errors:
  "length (validateCategoryConstraints files) =
     (if length (filter (\<lambda>f. fm_category f = ''person'') files) < 1 then 1 else 0) +
     (if length (filter (\<lambda>f. fm_category f = ''person'') files) > 1 then 1 else 0) +
     (if length (filter (\<lambda>f. fm_category f = ''item'') files) > 3 then 1 else 0)"
  by (simp add: validateCategoryConstraints_def Let_def person_min_def person_max_def items_max_def)

lemma size_error_only_above_hard_limit:
  "FILE_SIZE_EXCEEDED \<in> err_code ` set (validateFile file) \<longleftrightarrow> file_size file > hardMaxSize"
  by (auto simp: validateFile_def Let_def)

text \<open>
  Claim C8. \<open>validateUpload\<close> accepts a candidate set (\<open>isValid\<close> with an empty error
  list) exactly when it holds one \<open>person\<close> file, at most three \<open>item\<close> files, and
  every file has an allowed type and at most 8 MiB. \<open>isValid\<close> is false as soon as there
  is one error, and there is one error for each violated rule: one per file of a type
  outside the list, one per file above 8 MiB, one for a missing person file, one for
  more than one person file, one for more than three items. A size error appears only
  above the 8 MiB limit, so the 5 MiB value \<open>maxSize\<close> plays no part.
\<close>

theorem validateUpload_all_or_nothing:
  "((isValid (validateUpload files) \<and> errors (validateUpload files) = []) \<longleftrightarrow>
      (length (filter (\<lambda>f. fm_category f = ''person'') files) = 1 \<and>
       length (filter (\<lambda>f. fm_category f = ''item'') files) \<le> 3 \<and>
       (\<forall>f \<in> set files. file_type (fm_file f) \<in> set allowedTypes \<and>
                          file_size (fm_file f) \<le> 8 * 1024 * 1024))) \<and>
   (isValid (validateUpload files) \<longleftrightarrow> errors (validateUpload files) = []) \<and>
   length (errors (validateUpload files)) =
     length (filter (\<lambda>f. file_type (fm_file f) \<notin> set allowedTypes) files) +
     length (filter (\<lambda>f. file_size (fm_file f) > 8 * 1024 * 1024) files) +
     (if length (filter (\<lambda>f. fm_category f = ''person'') files) < 1 then 1 else 0) +
     (if length (filter (\<lambda>f. fm_category f = ''person'') files) > 1 then 1 else 0) +
     (if length (filter (\<lambda>f. fm_category f = ''item'') files) > 3 then 1 else 0) \<and>
   (\<forall>f \<in> set files. FILE_SIZE_EXCEEDED \<in> err_code ` set (validateFile (fm_file f)) \<longleftrightarrow>
                        file_size (fm_file f) > 8 * 1024 * 1024)"
proof -
  have "errors (validateUpload files) = [] \<longleftrightarrow>
          (\<forall>f \<in> set files. validateFile (fm_file f) = []) \<and> validateCategoryConstraints files = []"
    by (auto simp: errors_validateUpload)
  then have a: "(isValid (validateUpload files) \<and> errors (validateUpload files) = []) \<longleftrightarrow>
      (length (filter (\<lambda>f. fm_category f = ''person'') files) = 1 \<and>
       length (filter (\<lambda>f. fm_category f = ''item'') files) \<le> 3 \<and>
       (\<forall>f \<in> set files. file_type (fm_file f) \<in> set allowedTypes \<and>
                          file_size (fm_file f) \<le> 8 * 1024 * 1024))"
    using isValid_validateUpload[of files]
    by (auto simp: validateFile_Nil_iff validateCategoryConstraints_Nil_iff hardMaxSize_def)
  have b: "length (errors (validateUpload files)) =
     length (filter (\<lambda>f. file_type (fm_file f) \<notin> set allowedTypes) files) +
     length (filter (\<lambda>f. file_size (fm_file f) > 8 * 1024 * 1024) files) +
     (if length (filter (\<lambda>f. fm_category f = ''person'') files) < 1 then 1 else 0) +
     (if length (filter (\<lambda>f. fm_category f = ''person'') files) > 1 then 1 else 0) +
     (if length (filter (\<lambda>f. fm_category f = ''item'') files) > 3 then 1 else 0)"
    using length_file_errors[of files] length_category_errors[of files]
    by (simp add: errors_validateUpload hardMaxSize_def)
  have c: "\<forall>f \<in> set files. FILE_SIZE_EXCEEDED \<in> err_code ` set (validateFile (fm_file f)) \<longleftrightarrow>
                        file_size (fm_file f) > 8 * 1024 * 1024"
    using size_error_only_above_hard_limit by (simp add: hardMaxSize_def)
  from a isValid_validateUpload[of files] b c show ?thesis by blast
qed

text \<open>
  The theorem at the candidate set \<open>demo_upload\<close>, whose portrait has 6 MiB, more than the
  soft limit: the set is accepted.
\<close>

theorem validateUpload_all_or_nothing_witness:
  "maxSize < file_size (fm_file (hd demo_upload)) \<and>
   isValid (validateUpload demo_upload) \<and> errors (validateUpload demo_upload) = []"
proof -
  have "length (filter (\<lambda>f. fm_category f = ''person'') demo_upload) = 1 \<and>
       length (filter (\<lambda>f. fm_category f = ''item'') demo_upload) \<le> 3 \<and>
       (\<forall>f \<in> set demo_upload. file_type (fm_file f) \<in> set allowedTypes \<and>
                          file_size (fm_file f) \<le> 8 * 1024 * 1024)"
    by (simp add: demo_upload_def allowedTypes_def)
  with validateUpload_all_or_nothing[of demo_upload]
  have "isValid (validateUpload demo_upload) \<and> errors (validateUpload demo_upload) = []"
    by blast
  moreover have "maxSize < file_size (fm_file (hd demo_upload))"
    by (simp add: demo_upload_def maxSize_def)
  ultimately show ?thesis by blast
qed

section \<open>Properties of the retry policy\<close>

lemma getElapsedMs_eq:
  "getElapsedMs env m s = (clock env (ticks s) - startTime m, s\<lparr>ticks := ticks s + 1\<rparr>)"
  by (simp add: getElapsedMs_def)

text \<open>
  Claim C5. \<open>shouldRetry(n)\<close> is true exactly when \<open>n\<close> is below \<open>retryAttempts\<close> and the
  elapsed time plus \<open>retryDelayMs\<close> is strictly below \<open>maxDurationMs\<close>. The elapsed time is
  the clock reading at the call minus the reading taken by \<open>start()\<close>. This holds for
  every \<open>n\<close>, in particular for \<open>n \<ge> 1\<close>.
\<close>

theorem shouldRetry_iff:
  "(fst (shouldRetry env m n s) \<longleftrightarrow>
      n < retryAttempts (config m) \<and>
      fst (getElapsedMs env m s) + retryDelayMs (config m) < maxDurationMs (config m)) \<and>
   fst (getElapsedMs env (fst (start env m0 s0)) s) = clock env (ticks s) - clock env (ticks s0)"
  by (simp add: shouldRetry_def getElapsedMs_def start_def Let_def)

text \<open>
  The theorem in the run \<open>demo_env\<close>: started at the first clock reading, asked at the
  second, attempt 1 of 2 may be retried and attempt 2 may not.
\<close>

theorem shouldRetry_iff_witness:
  "fst (shouldRetry demo_env (fst (start demo_env demo_monitor initial_run)) 1
          (snd (start demo_env demo_monitor initial_run))) \<and>
   \<not> fst (shouldRetry demo_env (fst (start demo_env demo_monitor initial_run)) 2
          (snd (start demo_env demo_monitor initial_run)))"
  using shouldRetry_iff[of demo_env "fst (start demo_env demo_monitor initial_run)" 1
          "snd (start demo_env demo_monitor initial_run)" demo_monitor initial_run]
        shouldRetry_iff[of demo_env "fst (start demo_env demo_monitor initial_run)" 2
          "snd (start demo_env demo_monitor initial_run)" demo_monitor initial_run]
  by (simp add: start_def demo_env_def demo_monitor_def initial_run_def
      DEFAULT_PERFORMANCE_CONFIG_def)










section \<open>Properties of the read routes\<close>

lemma truthy_nonempty: "jid \<noteq> [] \<Longrightarrow> truthy (Some jid) = Some jid"
  by (simp add: truthy_def)

lemma post_prelude_authed:
  assumes "authorization req = Some h" and "startsWith h ''Bearer ''"
    and "getUser w (token_of h) = Returned (Some u, None)"
    and "body req = Some (Some jid)" and "jid \<noteq> []"
  shows "post_prelude w req k s = k u jid (call (CallGetUser (token_of h)) s)"
  using assms by (simp add: post_prelude_def Let_def truthy_nonempty)

lemma download_try_authed:
  assumes "authorization req = Some h" and "startsWith h ''Bearer ''"
    and "getUser w (token_of h) = Returned (Some u, None)" and "jid \<noteq> []"
  shows "download_try w jid req s = download_job w u jid (call (CallGetUser (token_of h)) s)"
  using assms by (simp add: download_try_def Let_def)

lemma view_try_authed:
  assumes "authorization req = Some h" and "startsWith h ''Bearer ''"
    and "getUser w (token_of h) = Returned (Some u, None)" and "jid \<noteq> []"
  shows "view_try w d jid req s = view_job w d u jid (call (CallGetUser (token_of h)) s)"
  using assms by (simp add: view_try_def Let_def)

text \<open>
  Claim C1. Let the bearer token of the request resolve to user \<open>B\<close>, and let the id-only
  lookup of the requested job return the row \<open>J\<close> (the row is in the table under its
  non-empty id), owned by somebody else. Then each of the four read routes (view job,
  share, download, preview bytes) answers 403 with the body \<open>Access denied\<close> and nothing
  else: no job fields, no signed URL, no bytes. It is never 404. The only outside calls
  made are the token check and the lookup by id; storage is not touched.
\<close>

theorem foreign_job_is_forbidden:
  assumes hdr: "startsWith h ''Bearer ''"
    and auth: "getUser w (token_of h) = Returned (Some B, None)"
    and row: "select_job w (job_id J) = Returned (Some J, None)"
    and ne: "job_id J \<noteq> []"
    and other: "user_id B \<noteq> job_user_id J"
  shows "view_GET w ttlDays (job_id J) \<lparr>authorization = Some h, body = b\<rparr> =
           (Json 403 [(''success'', JBool False), (''error'', JStr ''Access denied'')],
            \<lparr>reads = 0, trace = [CallGetUser (token_of h), CallSelectJob (job_id J)]\<rparr>)
       \<and> share_POST w ttlDays \<lparr>authorization = Some h, body = Some (Some (job_id J))\<rparr> =
           (Json 403 [(''error'', JStr ''Access denied'')],
            \<lparr>reads = 0, trace = [CallGetUser (token_of h), CallSelectJob (job_id J)]\<rparr>)
       \<and> download_GET w (job_id J) \<lparr>authorization = Some h, body = b\<rparr> =
           (Json 403 [(''error'', JStr ''Access denied'')],
            \<lparr>reads = 0, trace = [CallGetUser (token_of h), CallSelectJob (job_id J)]\<rparr>)
       \<and> preview_POST w \<lparr>authorization = Some h, body = Some (Some (job_id J))\<rparr> =
           (Json 403 [(''error'', JStr ''Access denied'')],
            \<lparr>reads = 0, trace = [CallGetUser (token_of h), CallSelectJob (job_id J)]\<rparr>)"
proof -
  have v: "view_GET w ttlDays (job_id J) \<lparr>authorization = Some h, body = b\<rparr> =
           (Json 403 [(''success'', JBool False), (''error'', JStr ''Access denied'')],
            \<lparr>reads = 0, trace = [CallGetUser (token_of h), CallSelectJob (job_id J)]\<rparr>)"
    unfolding view_GET_def
    using other
    by (simp add: view_try_authed[OF _ hdr auth ne] view_job_def row call_def initial_state_def)
  have s: "share_POST w ttlDays \<lparr>authorization = Some h, body = Some (Some (job_id J))\<rparr> =
           (Json 403 [(''error'', JStr ''Access denied'')],
            \<lparr>reads = 0, trace = [CallGetUser (token_of h), CallSelectJob (job_id J)]\<rparr>)"
    unfolding share_POST_def
    using other
    by (simp add: post_prelude_authed[OF _ hdr auth _ ne] share_job_def row call_def initial_state_def)
  have d: "download_GET w (job_id J) \<lparr>authorization = Some h, body = b\<rparr> =
           (Json 403 [(''error'', JStr ''Access denied'')],
            \<lparr>reads = 0, trace = [CallGetUser (token_of h), CallSelectJob (job_id J)]\<rparr>)"
    unfolding download_GET_def
    using other
    by (simp add: download_try_authed[OF _ hdr auth ne] download_job_def row call_def initial_state_def)
  have p: "preview_POST w \<lparr>authorization = Some h, body = Some (Some (job_id J))\<rparr> =
           (Json 403 [(''error'', JStr ''Access denied'')],
            \<lparr>reads = 0, trace = [CallGetUser (token_of h), CallSelectJob (job_id J)]\<rparr>)"
    unfolding preview_POST_def
    using other
    by (simp add: post_prelude_authed[OF _ hdr auth _ ne] preview_job_def row call_def initial_state_def)
  from v s d p show ?thesis by (simp only:)
qed

lemma demo_token2: "token_of ''Bearer tok2'' = Some ''tok2''"
  by (simp add: token_of_def nth_opt_def)

lemma demo_token1: "token_of ''Bearer tok1'' = Some ''tok1''"
  by (simp add: token_of_def nth_opt_def)

text \<open>The theorem in \<open>demo_world\<close>: user \<open>u2\<close> asks for job \<open>j1\<close> of user \<open>u1\<close>.\<close>

theorem foreign_job_is_forbidden_witness:
  "startsWith ''Bearer tok2'' ''Bearer '' \<and>
   getUser demo_world (token_of ''Bearer tok2'') = Returned (Some \<lparr>user_id = ''u2''\<rparr>, None) \<and>
   select_job demo_world (job_id demo_job) = Returned (Some demo_job, None) \<and>
   job_id demo_job \<noteq> [] \<and>
   user_id \<lparr>user_id = ''u2''\<rparr> \<noteq> job_user_id demo_job \<and>
   status_of (fst (view_GET demo_world 7 (job_id demo_job)
                     \<lparr>authorization = Some ''Bearer tok2'', body = None\<rparr>)) = 403 \<and>
   status_of (fst (share_POST demo_world 7
                     \<lparr>authorization = Some ''Bearer tok2'', body = Some (Some (job_id demo_job))\<rparr>)) = 403 \<and>
   status_of (fst (download_GET demo_world (job_id demo_job)
                     \<lparr>authorization = Some ''Bearer tok2'', body = None\<rparr>)) = 403 \<and>
   status_of (fst (preview_POST demo_world
                     \<lparr>authorization = Some ''Bearer tok2'', body = Some (Some (job_id demo_job))\<rparr>)) = 403"
proof -
  have h1: "startsWith ''Bearer tok2'' ''Bearer ''"
    by (simp add: startsWith_def)
  have h2: "getUser demo_world (token_of ''Bearer tok2'') = Returned (Some \<lparr>user_id = ''u2''\<rparr>, None)"
    by (simp add: demo_token2 demo_world_def)
  have h3: "select_job demo_world (job_id demo_job) = Returned (Some demo_job, None)"
    by (simp add: demo_world_def demo_job_def)
  have h4: "job_id demo_job \<noteq> []"
    by (simp add: demo_job_def)
  have h5: "user_id \<lparr>user_id = ''u2''\<rparr> \<noteq> job_user_id demo_job"
    by (simp add: demo_job_def)
  from foreign_job_is_forbidden[OF h1 h2 h3 h4 h5, of 7 None]
  have "status_of (fst (view_GET demo_world 7 (job_id demo_job)
                     \<lparr>authorization = Some ''Bearer tok2'', body = None\<rparr>)) = 403 \<and>
   status_of (fst (share_POST demo_world 7
                     \<lparr>authorization = Some ''Bearer tok2'', body = Some (Some (job_id demo_job))\<rparr>)) = 403 \<and>
   status_of (fst (download_GET demo_world (job_id demo_job)
                     \<lparr>authorization = Some ''Bearer tok2'', body = None\<rparr>)) = 403 \<and>
   status_of (fst (preview_POST demo_world
                     \<lparr>authorization = Some ''Bearer tok2'', body = Some (Some (job_id demo_job))\<rparr>)) = 403"
    by simp
  with h1 h2 h3 h4 h5 show ?thesis by blast
qed

text \<open>
  Claim C6, as stated, fails on the view-job route: for the owner of job \<open>j2\<close>, which has
  no preview path, the route answers 200 with \<open>success: true\<close>, not 404.
\<close>

theorem view_job_without_preview_counterexample:
  "getUser demo_world (token_of ''Bearer tok1'') = Returned (Some \<lparr>user_id = ''u1''\<rparr>, None) \<and>
   select_job demo_world ''j2'' = Returned (Some demo_job_no_preview, None) \<and>
   job_user_id demo_job_no_preview = ''u1'' \<and>
   job_preview_path demo_job_no_preview = None \<and>
   fst (view_GET demo_world 7 ''j2'' \<lparr>authorization = Some ''Bearer tok1'', body = None\<rparr>) =
     Json 200 [(''success'', JBool True), (''job'', JRow demo_job_no_preview),
               (''signedUrl'', JNull), (''expiresAt'', JNull)] \<and>
   status_of (fst (view_GET demo_world 7 ''j2''
                     \<lparr>authorization = Some ''Bearer tok1'', body = None\<rparr>)) \<noteq> 404"
  by (simp add: view_GET_def view_try_def view_job_def view_sign_def Let_def startsWith_def
      demo_token1 demo_world_def demo_job_no_preview_def demo_job_def truthy_def
      call_def initial_state_def)

text \<open>
  Claim C6, amended. For a job that exists, belongs to the caller and has no preview
  path (\<open>null\<close> or empty), the share, download and preview-bytes routes answer 404 with
  \<open>No preview available for this job\<close>; the view-job route answers 200 with the job row
  and \<open>null\<close> for both \<open>signedUrl\<close> and \<open>expiresAt\<close>. No route calls the storage.
\<close>

theorem no_preview_responses:
  assumes hdr: "startsWith h ''Bearer ''"
    and auth: "getUser w (token_of h) = Returned (Some A, None)"
    and row: "select_job w (job_id J) = Returned (Some J, None)"
    and ne: "job_id J \<noteq> []"
    and own: "job_user_id J = user_id A"
    and nop: "job_preview_path J = None \<or> job_preview_path J = Some []"
  shows "share_POST w ttlDays \<lparr>authorization = Some h, body = Some (Some (job_id J))\<rparr> =
           (Json 404 [(''error'', JStr ''No preview available for this job'')],
            \<lparr>reads = 0, trace = [CallGetUser (token_of h), CallSelectJob (job_id J)]\<rparr>)
       \<and> download_GET w (job_id J) \<lparr>authorization = Some h, body = b\<rparr> =
           (Json 404 [(''error'', JStr ''No preview available for this job'')],
            \<lparr>reads = 0, trace = [CallGetUser (token_of h), CallSelectJob (job_id J)]\<rparr>)
       \<and> preview_POST w \<lparr>authorization = Some h, body = Some (Some (job_id J))\<rparr> =
           (Json 404 [(''error'', JStr ''No preview available for this job'')],
            \<lparr>reads = 0, trace = [CallGetUser (token_of h), CallSelectJob (job_id J)]\<rparr>)
       \<and> view_GET w ttlDays (job_id J) \<lparr>authorization = Some h, body = b\<rparr> =
           (Json 200 [(''success'', JBool True), (''job'', JRow J),
                      (''signedUrl'', JNull), (''expiresAt'', JNull)],
            \<lparr>reads = 0, trace = [CallGetUser (token_of h), CallSelectJob (job_id J)]\<rparr>)"
proof -
  from nop have t: "truthy (job_preview_path J) = None" by (auto simp: truthy_def)
  have s: "share_POST w ttlDays \<lparr>authorization = Some h, body = Some (Some (job_id J))\<rparr> =
           (Json 404 [(''error'', JStr ''No preview available for this job'')],
            \<lparr>reads = 0, trace = [CallGetUser (token_of h), CallSelectJob (job_id J)]\<rparr>)"
    unfolding share_POST_def
    by (simp add: post_prelude_authed[OF _ hdr auth _ ne] share_job_def share_owned_def row own t
        call_def initial_state_def)
  have d: "download_GET w (job_id J) \<lparr>authorization = Some h, body = b\<rparr> =
           (Json 404 [(''error'', JStr ''No preview available for this job'')],
            \<lparr>reads = 0, trace = [CallGetUser (token_of h), CallSelectJob (job_id J)]\<rparr>)"
    unfolding download_GET_def
    by (simp add: download_try_authed[OF _ hdr auth ne] download_job_def download_owned_def row own t
        call_def initial_state_def)
  have p: "preview_POST w \<lparr>authorization = Some h, body = Some (Some (job_id J))\<rparr> =
           (Json 404 [(''error'', JStr ''No preview available for this job'')],
            \<lparr>reads = 0, trace = [CallGetUser (token_of h), CallSelectJob (job_id J)]\<rparr>)"
    unfolding preview_POST_def
    by (simp add: post_prelude_authed[OF _ hdr auth _ ne] preview_job_def preview_owned_def row own t
        call_def initial_state_def)
  have v: "view_GET w ttlDays (job_id J) \<lparr>authorization = Some h, body = b\<rparr> =
           (Json 200 [(''success'', JBool True), (''job'', JRow J),
                      (''signedUrl'', JNull), (''expiresAt'', JNull)],
            \<lparr>reads = 0, trace = [CallGetUser (token_of h), CallSelectJob (job_id J)]\<rparr>)"
    unfolding view_GET_def
    by (simp add: view_try_authed[OF _ hdr auth ne] view_job_def view_sign_def row own t
        call_def initial_state_def)
  from s d p v show ?thesis by (simp only:)
qed

text \<open>The amended statement in \<open>demo_world\<close>: user \<open>u1\<close> asks for the own job \<open>j2\<close>.\<close>

theorem no_preview_responses_witness:
  "startsWith ''Bearer tok1'' ''Bearer '' \<and>
   getUser demo_world (token_of ''Bearer tok1'') = Returned (Some \<lparr>user_id = ''u1''\<rparr>, None) \<and>
   select_job demo_world (job_id demo_job_no_preview) = Returned (Some demo_job_no_preview, None) \<and>
   job_id demo_job_no_preview \<noteq> [] \<and>
   job_user_id demo_job_no_preview = user_id \<lparr>user_id = ''u1''\<rparr> \<and>
   job_preview_path demo_job_no_preview = None \<and>
   status_of (fst (share_POST demo_world 7
      \<lparr>authorization = Some ''Bearer tok1'', body = Some (Some (job_id demo_job_no_preview))\<rparr>)) = 404 \<and>
   status_of (fst (download_GET demo_world (job_id demo_job_no_preview)
      \<lparr>authorization = Some ''Bearer tok1'', body = None\<rparr>)) = 404 \<and>
   status_of (fst (preview_POST demo_world
      \<lparr>authorization = Some ''Bearer tok1'', body = Some (Some (job_id demo_job_no_preview))\<rparr>)) = 404 \<and>
   status_of (fst (view_GET demo_world 7 (job_id demo_job_no_preview)
      \<lparr>authorization = Some ''Bearer tok1'', body = None\<rparr>)) = 200"
proof -
  have h1: "startsWith ''Bearer tok1'' ''Bearer ''"
    by (simp add: startsWith_def)
  have h2: "getUser demo_world (token_of ''Bearer tok1'') = Returned (Some \<lparr>user_id = ''u1''\<rparr>, None)"
    by (simp add: demo_token1 demo_world_def)
  have h3: "select_job demo_world (job_id demo_job_no_preview) = Returned (Some demo_job_no_preview, None)"
    by (simp add: demo_world_def demo_job_no_preview_def)
  have h4: "job_id demo_job_no_preview \<noteq> []"
    by (simp add: demo_job_no_preview_def)
  have h5: "job_user_id demo_job_no_preview = user_id \<lparr>user_id = ''u1''\<rparr>"
    by (simp add: demo_job_no_preview_def demo_job_def)
  have h6: "job_preview_path demo_job_no_preview = None"
    by (simp add: demo_job_no_preview_def)
  from no_preview_responses[OF h1 h2 h3 h4 h5 disjI1[OF h6], of 7 None]
  have "status_of (fst (share_POST demo_world 7
      \<lparr>authorization = Some ''Bearer tok1'', body = Some (Some (job_id demo_job_no_preview))\<rparr>)) = 404 \<and>
   status_of (fst (download_GET demo_world (job_id demo_job_no_preview)
      \<lparr>authorization = Some ''Bearer tok1'', body = None\<rparr>)) = 404 \<and>
   status_of (fst (preview_POST demo_world
      \<lparr>authorization = Some ''Bearer tok1'', body = Some (Some (job_id demo_job_no_preview))\<rparr>)) = 404 \<and>
   status_of (fst (view_GET demo_world 7 (job_id demo_job_no_preview)
      \<lparr>authorization = Some ''Bearer tok1'', body = None\<rparr>)) = 200"
    by simp
  with h1 h2 h3 h4 h5 h6 show ?thesis by blast
qed

section \<open>Properties of the job submission route\<close>

lemma read_clock_eq: "read_clock w s = (date_now w (reads s), s\<lparr>reads := reads s + 1\<rparr>)"
  by (simp add: read_clock_def)

lemma recordSimulationMetrics_eq:
  "recordSimulationMetrics w jobId userId durationMs status details s =
     \<lparr>reads = reads s + 1,
      trace = trace s @ [CallInsertMetrics
                \<lparr>metrics_job_id = jobId, metrics_user_id = userId,
                 metrics_duration_ms = durationMs, metrics_status = status,
                 metrics_details = details, metrics_created_at = date_now w (reads s)\<rparr>]\<rparr>"
  by (simp add: recordSimulationMetrics_def read_clock_def call_def Let_def
      split: outcome.splits option.splits)

lemma simulate_denied_eq:
  "simulate_denied w st user which got s =
     (Responded (Json 403
        [(''error'', JStr ''Ownership validation failed''),
         (''details'', JStr (which @ '' path must start with '' @ quote @ user_id user @ ''/'' @
                              quote @ '' but got: '' @ or_else got ''empty''))]),
      \<lparr>reads = reads s + 2,
       trace = trace s @ [CallInsertMetrics
                 \<lparr>metrics_job_id = None, metrics_user_id = user_id user,
                  metrics_duration_ms = date_now w (reads s) - st, metrics_status = ''denied'',
                  metrics_details = which @ '' path ownership validation failed'',
                  metrics_created_at = date_now w (reads s + 1)\<rparr>]\<rparr>)"
  by (simp add: simulate_denied_def read_clock_eq recordSimulationMetrics_eq Let_def)

lemma simulate_try_authed:
  assumes "authorization req = Some h" and "startsWith h ''Bearer ''"
    and "getUser w (token_of h) = Returned (Some u, None)"
    and "body req = Some b"
  shows "simulate_try w st req s =
           simulate_ownership w st (token_of h) u b (call (CallGetUser (token_of h)) s)"
  using assms by (simp add: simulate_try_def Let_def)

lemma find_Some_iff_ex: "(\<exists>x. find P xs = Some x \<and> P x) \<longleftrightarrow> (\<exists>x \<in> set xs. P x)"
  by (induction xs) auto

lemma find_None_iff_all: "find P xs = None \<longleftrightarrow> (\<forall>x \<in> set xs. \<not> P x)"
  by (induction xs) auto

lemma simulate_ownership_denied:
  assumes "\<not> owned (user_id u) (req_personPath b) \<or>
           (\<exists>ip \<in> set (case req_itemPaths b of None \<Rightarrow> [] | Some ps \<Rightarrow> ps). \<not> owned (user_id u) ip)"
  shows "\<exists>which got. which \<in> {''Person'', ''Item''} \<and>
           (\<forall>s. simulate_ownership w st tok u b s = simulate_denied w st u which got s)"
proof (cases "owned (user_id u) (req_personPath b)")
  case False
  then have "\<forall>s. simulate_ownership w st tok u b s =
               simulate_denied w st u ''Person'' (req_personPath b) s"
    by (cases "req_personPath b") (simp_all add: simulate_ownership_def Let_def)
  then show ?thesis by blast
next
  case True
  then obtain p where p: "req_personPath b = Some p"
    by (auto simp: owned_def split: option.splits)
  from True assms
  have "\<exists>ip \<in> set (case req_itemPaths b of None \<Rightarrow> [] | Some ps \<Rightarrow> ps). \<not> owned (user_id u) ip"
    by blast
  then obtain ip where
    "find (\<lambda>itemPath. \<not> owned (user_id u) itemPath)
       (case req_itemPaths b of None \<Rightarrow> [] | Some ps \<Rightarrow> ps) = Some ip"
    using find_Some_iff_ex[of "\<lambda>itemPath. \<not> owned (user_id u) itemPath"] by blast
  with True p have "\<forall>s. simulate_ownership w st tok u b s = simulate_denied w st u ''Item'' ip s"
    by (simp add: simulate_ownership_def Let_def)
  then show ?thesis by blast
qed

lemma simulate_POST_denied:
  assumes hdr: "authorization req = Some h" "startsWith h ''Bearer ''"
    and auth: "getUser w (token_of h) = Returned (Some u, None)"
    and bd: "body req = Some b"
    and bad: "\<not> owned (user_id u) (req_personPath b) \<or>
           (\<exists>ip \<in> set (case req_itemPaths b of None \<Rightarrow> [] | Some ps \<Rightarrow> ps). \<not> owned (user_id u) ip)"
  shows "\<exists>which got. which \<in> {''Person'', ''Item''} \<and>
           simulate_POST w req =
             (Json 403
                [(''error'', JStr ''Ownership validation failed''),
                 (''details'', JStr (which @ '' path must start with '' @ quote @ user_id u @ ''/'' @
                                      quote @ '' but got: '' @ or_else got ''empty''))],
              \<lparr>reads = 3,
               trace = [CallGetUser (token_of h),
                        CallInsertMetrics
                          \<lparr>metrics_job_id = None, metrics_user_id = user_id u,
                           metrics_duration_ms = date_now w 1 - date_now w 0,
                           metrics_status = ''denied'',
                           metrics_details = which @ '' path ownership validation failed'',
                           metrics_created_at = date_now w 2\<rparr>]\<rparr>)"
proof -
  from simulate_ownership_denied[OF bad, of w "date_now w 0" "token_of h"]
  obtain which got where wh: "which \<in> {''Person'', ''Item''}"
    and eq: "\<And>s. simulate_ownership w (date_now w 0) (token_of h) u b s =
             simulate_denied w (date_now w 0) u which got s"
    by blast
  have "simulate_POST w req =
             (Json 403
                [(''error'', JStr ''Ownership validation failed''),
                 (''details'', JStr (which @ '' path must start with '' @ quote @ user_id u @ ''/'' @
                                      quote @ '' but got: '' @ or_else got ''empty''))],
              \<lparr>reads = 3,
               trace = [CallGetUser (token_of h),
                        CallInsertMetrics
                          \<lparr>metrics_job_id = None, metrics_user_id = user_id u,
                           metrics_duration_ms = date_now w 1 - date_now w 0,
                           metrics_status = ''denied'',
                           metrics_details = which @ '' path ownership validation failed'',
                           metrics_created_at = date_now w 2\<rparr>]\<rparr>)"
    by (simp add: simulate_POST_def read_clock_eq simulate_try_authed[OF hdr auth bd] eq
        simulate_denied_eq call_def initial_state_def numeral_2_eq_2 numeral_3_eq_3)
  with wh show ?thesis by blast
qed

lemma not_owned_iff:
  "\<not> owned uid path \<longleftrightarrow>
     path = None \<or> path = Some [] \<or> (\<exists>p. path = Some p \<and> \<not> startsWith p (uid @ ''/''))"
  by (auto simp: owned_def split: option.splits)

text \<open>
  Claim C2. Let the token of a submission resolve to user \<open>U\<close>. If the person path is
  missing, empty or does not start with \<open>U\<close>'s id followed by \<open>/\<close>, or some item path is,
  the route answers 403 with the error \<open>Ownership validation failed\<close>. Besides the token
  check, the only outside call is one insert into the metrics table, with status
  \<open>denied\<close> and no job id: the generation backend is not called, nothing is written to
  the storage, and no job row is inserted.
\<close>

theorem ownership_violation_denied:
  assumes hdr: "authorization req = Some h" "startsWith h ''Bearer ''"
    and auth: "getUser w (token_of h) = Returned (Some U, None)"
    and bd: "body req = Some b"
    and bad: "req_personPath b = None \<or> req_personPath b = Some [] \<or>
              (\<exists>p. req_personPath b = Some p \<and> \<not> startsWith p (user_id U @ ''/'')) \<or>
              (\<exists>ps ip. req_itemPaths b = Some ps \<and> ip \<in> set ps \<and>
                 (ip = None \<or> ip = Some [] \<or> (\<exists>p. ip = Some p \<and> \<not> startsWith p (user_id U @ ''/''))))"
  shows "\<exists>which got. which \<in> {''Person'', ''Item''} \<and>
           simulate_POST w req =
             (Json 403
                [(''error'', JStr ''Ownership validation failed''),
                 (''details'', JStr (which @ '' path must start with '' @ quote @ user_id U @ ''/'' @
                                      quote @ '' but got: '' @ or_else got ''empty''))],
              \<lparr>reads = 3,
               trace = [CallGetUser (token_of h),
                        CallInsertMetrics
                          \<lparr>metrics_job_id = None, metrics_user_id = user_id U,
                           metrics_duration_ms = date_now w 1 - date_now w 0,
                           metrics_status = ''denied'',
                           metrics_details = which @ '' path ownership validation failed'',
                           metrics_created_at = date_now w 2\<rparr>]\<rparr>)"
proof -
  from bad have "\<not> owned (user_id U) (req_personPath b) \<or>
           (\<exists>ip \<in> set (case req_itemPaths b of None \<Rightarrow> [] | Some ps \<Rightarrow> ps). \<not> owned (user_id U) ip)"
    unfolding not_owned_iff by (auto split: option.splits)
  from simulate_POST_denied[OF hdr auth bd this] show ?thesis .
qed

text \<open>
  The theorem in \<open>demo_world\<close>, scenario B of the specification: user \<open>u1\<close> submits the
  subject path \<open>u2/abc.png\<close>.
\<close>

theorem ownership_violation_denied_witness:
  "getUser demo_world (token_of ''Bearer tok1'') = Returned (Some \<lparr>user_id = ''u1''\<rparr>, None) \<and>
   \<not> startsWith ''u2/abc.png'' (user_id \<lparr>user_id = ''u1''\<rparr> @ ''/'') \<and>
   status_of (fst (simulate_POST demo_world
      \<lparr>authorization = Some ''Bearer tok1'',
       body = Some \<lparr>req_personPath = Some ''u2/abc.png'', req_itemPaths = None\<rparr>\<rparr>)) = 403 \<and>
   map metrics_status (metrics_inserts (trace (snd (simulate_POST demo_world
      \<lparr>authorization = Some ''Bearer tok1'',
       body = Some \<lparr>req_personPath = Some ''u2/abc.png'', req_itemPaths = None\<rparr>\<rparr>)))) = [''denied''] \<and>
   length (trace (snd (simulate_POST demo_world
      \<lparr>authorization = Some ''Bearer tok1'',
       body = Some \<lparr>req_personPath = Some ''u2/abc.png'', req_itemPaths = None\<rparr>\<rparr>))) = 2"
proof -
  let ?req = "\<lparr>authorization = Some ''Bearer tok1'',
       body = Some \<lparr>req_personPath = Some ''u2/abc.png'', req_itemPaths = None\<rparr>\<rparr>"
  have h1: "authorization ?req = Some ''Bearer tok1''" by simp
  have h2: "startsWith ''Bearer tok1'' ''Bearer ''" by (simp add: startsWith_def)
  have h3: "getUser demo_world (token_of ''Bearer tok1'') = Returned (Some \<lparr>user_id = ''u1''\<rparr>, None)"
    by (simp add: demo_token1 demo_world_def)
  have h4: "body ?req = Some \<lparr>req_personPath = Some ''u2/abc.png'', req_itemPaths = None\<rparr>" by simp
  have h5: "\<not> startsWith ''u2/abc.png'' (user_id \<lparr>user_id = ''u1''\<rparr> @ ''/'')"
    by (simp add: startsWith_def)
  then have bad: "req_personPath \<lparr>req_personPath = Some ''u2/abc.png'', req_itemPaths = None\<rparr> = None \<or>
      req_personPath \<lparr>req_personPath = Some ''u2/abc.png'', req_itemPaths = None\<rparr> = Some [] \<or>
      (\<exists>p. req_personPath \<lparr>req_personPath = Some ''u2/abc.png'', req_itemPaths = None\<rparr> = Some p \<and>
           \<not> startsWith p (user_id \<lparr>user_id = ''u1''\<rparr> @ ''/'')) \<or>
      (\<exists>ps ip. req_itemPaths \<lparr>req_personPath = Some ''u2/abc.png'', req_itemPaths = None\<rparr> = Some ps \<and>
           ip \<in> set ps \<and>
           (ip = None \<or> ip = Some [] \<or>
            (\<exists>p. ip = Some p \<and> \<not> startsWith p (user_id \<lparr>user_id = ''u1''\<rparr> @ ''/''))))"
    by simp
  from ownership_violation_denied[OF h1 h2 h3 h4 bad]
  obtain resp row where "simulate_POST demo_world ?req =
      (Json 403 resp, \<lparr>reads = 3, trace = [CallGetUser (token_of ''Bearer tok1''), CallInsertMetrics row]\<rparr>)"
    and "metrics_status row = ''denied''"
    by auto
  then have "status_of (fst (simulate_POST demo_world ?req)) = 403 \<and>
     map metrics_status (metrics_inserts (trace (snd (simulate_POST demo_world ?req)))) = [''denied''] \<and>
     length (trace (snd (simulate_POST demo_world ?req))) = 2"
    by (simp add: metrics_inserts_def)
  with h3 h5 show ?thesis by blast
qed

lemma prefix_collision_rejected:
  assumes ne: "A \<noteq> B" and pre: "startsWith B A" and sep: "B ! length A \<noteq> CHR ''/''"
  shows "\<not> startsWith (B @ ''/'' @ rest) (A @ ''/'')"
proof
  assume acc: "startsWith (B @ ''/'' @ rest) (A @ ''/'')"
  from pre have tk: "take (length A) B = A" by (simp add: startsWith_def)
  then have "length A \<le> length B"
    by (metis length_take min.cobounded1 min.commute)
  with ne tk have lt: "length A < length B"
    by (metis le_neq_implies_less take_all order_refl)
  from acc have "take (Suc (length A)) (B @ ''/'' @ rest) = A @ ''/''"
    by (simp add: startsWith_def)
  with lt have "take (Suc (length A)) B = A @ ''/''" by simp
  with lt tk have "B ! length A = CHR ''/''"
    by (simp add: take_Suc_conv_app_nth)
  with sep show False by contradiction
qed

lemma simulate_POST_success:
  assumes hdr: "authorization req = Some h" "startsWith h ''Bearer ''"
    and auth: "getUser w (token_of h) = Returned (Some U, None)"
    and bd: "body req = Some b"
    and person: "req_personPath b = Some p" "owned (user_id U) (Some p)"
    and items: "(case req_itemPaths b of None \<Rightarrow> [] | Some ps \<Rightarrow> ps) = items"
               "\<forall>ip \<in> set items. owned (user_id U) ip"
    and gen: "generateImage w \<lparr>gen_personPath = p, gen_itemPaths = items,
                                gen_user_id = user_id U, gen_user_token = token_of h\<rparr> = Returned g"
             "gem_success g"
    and up: "storage_upload w (user_id U @ ''/'' @ randomUUID w @ ''.webp'') (gem_imageBuffer g) =
               Returned None"
    and ls: "storage_list w (user_id U) (randomUUID w @ ''.webp'') = Returned (Some files, None)"
            "files \<noteq> []"
    and sg: "createSignedUrl w (user_id U @ ''/'' @ randomUUID w @ ''.webp'') (expiresIn_of (env_days w)) =
               Returned (Some url, None)"
    and ins: "insert_job w
                \<lparr>job_id = randomUUID w, job_user_id = user_id U, job_app_id = ''fit'',
                 job_person_path = p, job_item_paths = items, job_pose_id = None,
                 job_preview_path = Some (user_id U @ ''/'' @ randomUUID w @ ''.webp''),
                 job_duration_ms = date_now w 1 - date_now w 0,
                 job_status = (if isLiveMode w then ''completed'' else ''completed_stub''),
                 job_created_at = date_now w 2\<rparr> = Returned insertError"
  shows "simulate_POST w req =
           (Json 200 [(''success'', JBool True),
                      (''previewUrl'', JStr url),
                      (''jobId'', JStr (randomUUID w)),
                      (''duration_ms'', JNum (date_now w 1 - date_now w 0))],
            \<lparr>reads = 4,
             trace =
               [CallGetUser (token_of h),
                CallGenerate \<lparr>gen_personPath = p, gen_itemPaths = items,
                              gen_user_id = user_id U, gen_user_token = token_of h\<rparr>,
                CallUpload (user_id U @ ''/'' @ randomUUID w @ ''.webp'') (gem_imageBuffer g),
                CallList (user_id U) (randomUUID w @ ''.webp''),
                CallCreateSignedUrl (user_id U @ ''/'' @ randomUUID w @ ''.webp'')
                  (expiresIn_of (env_days w)),
                CallInsertJob
                  \<lparr>job_id = randomUUID w, job_user_id = user_id U, job_app_id = ''fit'',
                   job_person_path = p, job_item_paths = items, job_pose_id = None,
                   job_preview_path = Some (user_id U @ ''/'' @ randomUUID w @ ''.webp''),
                   job_duration_ms = date_now w 1 - date_now w 0,
                   job_status = (if isLiveMode w then ''completed'' else ''completed_stub''),
                   job_created_at = date_now w 2\<rparr>,
                CallInsertMetrics
                  \<lparr>metrics_job_id = Some (randomUUID w), metrics_user_id = user_id U,
                   metrics_duration_ms = date_now w 1 - date_now w 0,
                   metrics_status = (if isLiveMode w then ''completed'' else ''completed_stub''),
                   metrics_details = ''Simulation completed'',
                   metrics_created_at = date_now w 3\<rparr>]\<rparr>)"
proof -
  from items(2) have fnd: "find (\<lambda>itemPath. \<not> owned (user_id U) itemPath) items = None"
    by (simp add: find_None_iff_all)
  have own: "simulate_ownership w (date_now w 0) (token_of h) U b s =
             simulate_generate w (date_now w 0) (token_of h) U p items s" for s
    by (simp add: simulate_ownership_def Let_def person items(1) fnd)
  from ls(2) have nonempty: "Some files \<noteq> Some []" by simp
  show ?thesis
    using gen up ls(1) nonempty sg ins
    by (simp add: simulate_POST_def read_clock_eq simulate_try_authed[OF hdr auth bd] own
        simulate_generate_def simulate_store_def simulate_verify_def
        simulate_sign_def simulate_record_def recordSimulationMetrics_eq
        Let_def call_def initial_state_def eval_nat_numeral)
qed

text \<open>
  Claim C9. Generation, upload, verification and signing succeed, and the insert into
  the jobs table returns an error (\<open>insertError = Some e\<close>). The route still answers
  200 with \<open>success: true\<close>, the job id, the signed preview URL and \<open>duration_ms\<close>, and
  still records the metrics row with the completed status; the error of the insert
  appears nowhere in the response.
\<close>

theorem job_insert_failure_swallowed:
  assumes hdr: "authorization req = Some h" "startsWith h ''Bearer ''"
    and auth: "getUser w (token_of h) = Returned (Some U, None)"
    and bd: "body req = Some b"
    and person: "req_personPath b = Some p" "owned (user_id U) (Some p)"
    and items: "(case req_itemPaths b of None \<Rightarrow> [] | Some ps \<Rightarrow> ps) = items"
               "\<forall>ip \<in> set items. owned (user_id U) ip"
    and gen: "generateImage w \<lparr>gen_personPath = p, gen_itemPaths = items,
                                gen_user_id = user_id U, gen_user_token = token_of h\<rparr> = Returned g"
             "gem_success g"
    and up: "storage_upload w (user_id U @ ''/'' @ randomUUID w @ ''.webp'') (gem_imageBuffer g) =
               Returned None"
    and ls: "storage_list w (user_id U) (randomUUID w @ ''.webp'') = Returned (Some files, None)"
            "files \<noteq> []"
    and sg: "createSignedUrl w (user_id U @ ''/'' @ randomUUID w @ ''.webp'') (expiresIn_of (env_days w)) =
               Returned (Some url, None)"
    and ins: "\<And>row. insert_job w row = Returned (Some e)"
  shows "fst (simulate_POST w req) =
           Json 200 [(''success'', JBool True),
                     (''previewUrl'', JStr url),
                     (''jobId'', JStr (randomUUID w)),
                     (''duration_ms'', JNum (date_now w 1 - date_now w 0))] \<and>
         map metrics_status (metrics_inserts (trace (snd (simulate_POST w req)))) =
           [if isLiveMode w then ''completed'' else ''completed_stub''] \<and>
         (\<exists>row. CallInsertJob row \<in> set (trace (snd (simulate_POST w req))) \<and>
                insert_job w row = Returned (Some e))"
  using simulate_POST_success[OF hdr auth bd person items gen up ls sg ins] ins
  by (simp add: metrics_inserts_def)

text \<open>
  The theorem in \<open>demo_world\<close>, whose jobs table refuses every insert: the submission of
  \<open>u1/abc.png\<close> by \<open>u1\<close> is answered with success.
\<close>

theorem job_insert_failure_swallowed_witness:
  "insert_job demo_world = (\<lambda>row. Returned (Some ''connection refused'')) \<and>
   fst (simulate_POST demo_world demo_submission) =
     Json 200 [(''success'', JBool True),
               (''previewUrl'', JStr ''https://signed/u1/j3.webp''),
               (''jobId'', JStr ''j3''),
               (''duration_ms'', JNum 5)] \<and>
   map metrics_status (metrics_inserts (trace (snd (simulate_POST demo_world demo_submission)))) =
     [''completed_stub'']"
proof -
  let ?b = "\<lparr>req_personPath = Some ''u1/abc.png'', req_itemPaths = None\<rparr>"
  let ?U = "\<lparr>user_id = ''u1''\<rparr>"
  let ?g = "\<lparr>gem_success = True, gem_imageBuffer = Some [9, 9], gem_error = None\<rparr>"
  have h1: "authorization demo_submission = Some ''Bearer tok1''" by (simp add: demo_submission_def)
  have h2: "startsWith ''Bearer tok1'' ''Bearer ''" by (simp add: startsWith_def)
  have h3: "getUser demo_world (token_of ''Bearer tok1'') = Returned (Some ?U, None)"
    by (simp add: demo_token1 demo_world_def)
  have h4: "body demo_submission = Some ?b" by (simp add: demo_submission_def)
  have h5: "req_personPath ?b = Some ''u1/abc.png''" by simp
  have h6: "owned (user_id ?U) (Some ''u1/abc.png'')" by (simp add: owned_def startsWith_def)
  have h7: "(case req_itemPaths ?b of None \<Rightarrow> [] | Some ps \<Rightarrow> ps) = []" by simp
  have h8: "\<forall>ip \<in> set []. owned (user_id ?U) ip" by simp
  have h9: "generateImage demo_world \<lparr>gen_personPath = ''u1/abc.png'', gen_itemPaths = [],
              gen_user_id = user_id ?U, gen_user_token = token_of ''Bearer tok1''\<rparr> = Returned ?g"
    by (simp add: demo_world_def)
  have h10: "gem_success ?g" by simp
  have h11: "storage_upload demo_world (user_id ?U @ ''/'' @ randomUUID demo_world @ ''.webp'')
               (gem_imageBuffer ?g) = Returned None"
    by (simp add: demo_world_def)
  have h12: "storage_list demo_world (user_id ?U) (randomUUID demo_world @ ''.webp'') =
               Returned (Some [''j3.webp''], None)"
    by (simp add: demo_world_def)
  have h13: "[''j3.webp''] \<noteq> []" by simp
  have h14: "createSignedUrl demo_world (user_id ?U @ ''/'' @ randomUUID demo_world @ ''.webp'')
               (expiresIn_of (env_days demo_world)) = Returned (Some ''https://signed/u1/j3.webp'', None)"
    by (simp add: demo_world_def)
  have h15: "\<And>row. insert_job demo_world row = Returned (Some ''connection refused'')"
    by (simp add: demo_world_def)
  have d: "date_now demo_world (Suc 0) - date_now demo_world 0 = 5" "randomUUID demo_world = ''j3''"
    "isLiveMode demo_world = False"
    by (simp_all add: demo_world_def)
  from job_insert_failure_swallowed[OF h1 h2 h3 h4 h5 h6 h7 h8 h9 h10 h11 h12 h13 h14 h15]
  have "fst (simulate_POST demo_world demo_submission) =
     Json 200 [(''success'', JBool True),
               (''previewUrl'', JStr ''https://signed/u1/j3.webp''),
               (''jobId'', JStr ''j3''),
               (''duration_ms'', JNum 5)] \<and>
   map metrics_status (metrics_inserts (trace (snd (simulate_POST demo_world demo_submission)))) =
     [''completed_stub'']"
    by (simp add: d)
  moreover have "insert_job demo_world = (\<lambda>row. Returned (Some ''connection refused''))"
    by (simp add: demo_world_def)
  ultimately show ?thesis by blast
qed

text \<open>
  Claim C10, as stated, fails when the longer user id continues with the separator:
  \<open>u1\<close> is a prefix of the distinct id \<open>u1/x\<close>, and the path \<open>u1/x/abc.png\<close> in the
  namespace of \<open>u1/x\<close> passes the check for \<open>u1\<close>; the submission is processed and
  answered with 200.
\<close>

theorem prefix_collision_counterexample:
  "''u1'' \<noteq> ''u1/x'' \<and> startsWith ''u1/x'' ''u1'' \<and>
   owned ''u1'' (Some (''u1/x'' @ ''/'' @ ''abc.png'')) \<and>
   getUser demo_world (token_of ''Bearer tok1'') = Returned (Some \<lparr>user_id = ''u1''\<rparr>, None) \<and>
   status_of (fst (simulate_POST demo_world
      \<lparr>authorization = Some ''Bearer tok1'',
       body = Some \<lparr>req_personPath = Some (''u1/x'' @ ''/'' @ ''abc.png''),
                    req_itemPaths = None\<rparr>\<rparr>)) = 200"
proof -
  let ?b = "\<lparr>req_personPath = Some (''u1/x'' @ ''/'' @ ''abc.png''), req_itemPaths = None\<rparr>"
  let ?req = "\<lparr>authorization = Some ''Bearer tok1'', body = Some ?b\<rparr>"
  let ?U = "\<lparr>user_id = ''u1''\<rparr>"
  let ?g = "\<lparr>gem_success = True, gem_imageBuffer = Some [9, 9], gem_error = None\<rparr>"
  have h1: "authorization ?req = Some ''Bearer tok1''" by simp
  have h2: "startsWith ''Bearer tok1'' ''Bearer ''" by (simp add: startsWith_def)
  have h3: "getUser demo_world (token_of ''Bearer tok1'') = Returned (Some ?U, None)"
    by (simp add: demo_token1 demo_world_def)
  have h4: "body ?req = Some ?b" by simp
  have h5: "req_personPath ?b = Some (''u1/x'' @ ''/'' @ ''abc.png'')" by simp
  have h6: "owned (user_id ?U) (Some (''u1/x'' @ ''/'' @ ''abc.png''))"
    by (simp add: owned_def startsWith_def)
  have h7: "(case req_itemPaths ?b of None \<Rightarrow> [] | Some ps \<Rightarrow> ps) = []" by simp
  have h8: "\<forall>ip \<in> set []. owned (user_id ?U) ip" by simp
  have h9: "generateImage demo_world \<lparr>gen_personPath = ''u1/x'' @ ''/'' @ ''abc.png'', gen_itemPaths = [],
              gen_user_id = user_id ?U, gen_user_token = token_of ''Bearer tok1''\<rparr> = Returned ?g"
    by (simp add: demo_world_def)
  have h10: "gem_success ?g" by simp
  have h11: "storage_upload demo_world (user_id ?U @ ''/'' @ randomUUID demo_world @ ''.webp'')
               (gem_imageBuffer ?g) = Returned None"
    by (simp add: demo_world_def)
  have h12: "storage_list demo_world (user_id ?U) (randomUUID demo_world @ ''.webp'') =
               Returned (Some [''j3.webp''], None)"
    by (simp add: demo_world_def)
  have h13: "[''j3.webp''] \<noteq> []" by simp
  have h14: "createSignedUrl demo_world (user_id ?U @ ''/'' @ randomUUID demo_world @ ''.webp'')
               (expiresIn_of (env_days demo_world)) = Returned (Some ''https://signed/u1/j3.webp'', None)"
    by (simp add: demo_world_def)
  have h15: "insert_job demo_world row = Returned (Some ''connection refused'')" for row
    by (simp add: demo_world_def)
  from simulate_POST_success[OF h1 h2 h3 h4 h5 h6 h7 h8 h9 h10 h11 h12 h13 h14 h15]
  have "status_of (fst (simulate_POST demo_world ?req)) = 200" by simp
  moreover have "''u1'' \<noteq> ''u1/x'' \<and> startsWith ''u1/x'' ''u1''" by (simp add: startsWith_def)
  ultimately show ?thesis using h3 h6 by simp
qed

text \<open>
  Claim C10, amended. The check accepts a path for user \<open>A\<close> only if the path begins
  with \<open>A\<close>'s id followed by \<open>/\<close>. If \<open>A\<close> is a prefix of a distinct id \<open>B\<close> and the
  character of \<open>B\<close> that follows the prefix is not \<open>/\<close> (so in particular whenever user
  ids contain no \<open>/\<close>), then every path in \<open>B\<close>'s namespace fails the check for \<open>A\<close>, and
  a submission by \<open>A\<close> with such a person path is answered 403 without any call to the
  generation backend.
\<close>

theorem namespace_prefix_check:
  "(owned A (Some P) \<longrightarrow> startsWith P (A @ ''/'')) \<and>
   (A \<noteq> B \<and> startsWith B A \<and> B ! length A \<noteq> CHR ''/'' \<longrightarrow>
      \<not> owned A (Some (B @ ''/'' @ rest)) \<and>
      (\<forall>w req h b. authorization req = Some h \<and> startsWith h ''Bearer '' \<and>
         getUser w (token_of h) = Returned (Some \<lparr>user_id = A\<rparr>, None) \<and>
         body req = Some b \<and> req_personPath b = Some (B @ ''/'' @ rest) \<longrightarrow>
         status_of (fst (simulate_POST w req)) = 403 \<and>
         (\<forall>g. CallGenerate g \<notin> set (trace (snd (simulate_POST w req))))))"
proof -
  have one: "owned A (Some P) \<longrightarrow> startsWith P (A @ ''/'')"
    by (simp add: owned_def)
  have two: "\<not> owned A (Some (B @ ''/'' @ rest)) \<and>
      (\<forall>w req h b. authorization req = Some h \<and> startsWith h ''Bearer '' \<and>
         getUser w (token_of h) = Returned (Some \<lparr>user_id = A\<rparr>, None) \<and>
         body req = Some b \<and> req_personPath b = Some (B @ ''/'' @ rest) \<longrightarrow>
         status_of (fst (simulate_POST w req)) = 403 \<and>
         (\<forall>g. CallGenerate g \<notin> set (trace (snd (simulate_POST w req)))))"
    if c: "A \<noteq> B" "startsWith B A" "B ! length A \<noteq> CHR ''/''"
  proof -
    from prefix_collision_rejected[OF c] have no: "\<not> owned A (Some (B @ ''/'' @ rest))"
      by (simp add: owned_def)
    have "status_of (fst (simulate_POST w req)) = 403 \<and>
         (\<forall>g. CallGenerate g \<notin> set (trace (snd (simulate_POST w req))))"
      if r: "authorization req = Some h" "startsWith h ''Bearer ''"
         "getUser w (token_of h) = Returned (Some \<lparr>user_id = A\<rparr>, None)"
         "body req = Some b" "req_personPath b = Some (B @ ''/'' @ rest)"
      for w :: world and req :: "SimulateRequest request" and h b
    proof -
      from no r(5) have "\<not> owned (user_id \<lparr>user_id = A\<rparr>) (req_personPath b)" by simp
      then have "\<not> owned (user_id \<lparr>user_id = A\<rparr>) (req_personPath b) \<or>
           (\<exists>ip \<in> set (case req_itemPaths b of None \<Rightarrow> [] | Some ps \<Rightarrow> ps).
              \<not> owned (user_id \<lparr>user_id = A\<rparr>) ip)" by blast
      from simulate_POST_denied[OF r(1) r(2) r(3) r(4) this]
      obtain resp row where "simulate_POST w req =
          (Json 403 resp, \<lparr>reads = 3, trace = [CallGetUser (token_of h), CallInsertMetrics row]\<rparr>)"
        by blast
      then show ?thesis by simp
    qed
    with no show ?thesis by blast
  qed
  from one two show ?thesis by blast
qed

text \<open>
  The amended statement at \<open>A = u1\<close>, \<open>B = u12\<close>: the path \<open>u12/abc.png\<close> fails the
  check for \<open>u1\<close>, and the submission in \<open>demo_world\<close> is answered 403.
\<close>

theorem namespace_prefix_check_witness:
  "''u1'' \<noteq> ''u12'' \<and> startsWith ''u12'' ''u1'' \<and> ''u12'' ! length ''u1'' \<noteq> CHR ''/'' \<and>
   \<not> owned ''u1'' (Some (''u12'' @ ''/'' @ ''abc.png'')) \<and>
   status_of (fst (simulate_POST demo_world
      \<lparr>authorization = Some ''Bearer tok1'',
       body = Some \<lparr>req_personPath = Some (''u12'' @ ''/'' @ ''abc.png''),
                    req_itemPaths = None\<rparr>\<rparr>)) = 403"
proof -
  let ?b = "\<lparr>req_personPath = Some (''u12'' @ ''/'' @ ''abc.png''), req_itemPaths = None\<rparr>"
  let ?req = "\<lparr>authorization = Some ''Bearer tok1'', body = Some ?b\<rparr>"
  have c: "''u1'' \<noteq> ''u12'' \<and> startsWith ''u12'' ''u1'' \<and> ''u12'' ! length ''u1'' \<noteq> CHR ''/''"
    by (simp add: startsWith_def)
  have r: "authorization ?req = Some ''Bearer tok1'' \<and> startsWith ''Bearer tok1'' ''Bearer '' \<and>
         getUser demo_world (token_of ''Bearer tok1'') = Returned (Some \<lparr>user_id = ''u1''\<rparr>, None) \<and>
         body ?req = Some ?b \<and> req_personPath ?b = Some (''u12'' @ ''/'' @ ''abc.png'')"
    by (simp add: startsWith_def demo_token1 demo_world_def)
  from namespace_prefix_check[of "''u1''" "''u1/x''" "''u12''" "''abc.png''"] c
  have n: "\<not> owned ''u1'' (Some (''u12'' @ ''/'' @ ''abc.png''))"
    and a: "\<forall>w req h b. authorization req = Some h \<and> startsWith h ''Bearer '' \<and>
         getUser w (token_of h) = Returned (Some \<lparr>user_id = ''u1''\<rparr>, None) \<and>
         body req = Some b \<and> req_personPath b = Some (''u12'' @ ''/'' @ ''abc.png'') \<longrightarrow>
         status_of (fst (simulate_POST w req)) = 403 \<and>
         (\<forall>g. CallGenerate g \<notin> set (trace (snd (simulate_POST w req))))"
    by blast+
  from a r have "status_of (fst (simulate_POST demo_world ?req)) = 403" by blast
  with c n show ?thesis by blast
qed

lemma metrics_count_simps:
  "metrics_count (call (CallInsertMetrics row) s) = metrics_count s + 1"
  "metrics_count (call (CallGetUser tok) s) = metrics_count s"
  "metrics_count (call (CallSelectJob j) s) = metrics_count s"
  "metrics_count (call (CallGenerate g) s) = metrics_count s"
  "metrics_count (call (CallUpload p b) s) = metrics_count s"
  "metrics_count (call (CallList d n) s) = metrics_count s"
  "metrics_count (call (CallCreateSignedUrl p t) s) = metrics_count s"
  "metrics_count (call (CallDownload p) s) = metrics_count s"
  "metrics_count (call (CallInsertJob jr) s) = metrics_count s"
  "metrics_count (s\<lparr>reads := k\<rparr>) = metrics_count s"
  "metrics_count (recordSimulationMetrics w jobId userId durationMs status details s) =
     metrics_count s + 1"
  by (simp_all add: metrics_count_def call_def metrics_inserts_def recordSimulationMetrics_eq)

lemma record_count:
  "metrics_count (snd (simulate_record w st user pp ips jid path url s)) =
     metrics_count s + responded (fst (simulate_record w st user pp ips jid path url s))"
  "raised_user (fst (simulate_record w st user pp ips jid path url s)) \<noteq> Some None"
  by (simp_all add: simulate_record_def read_clock_eq Let_def metrics_count_simps
      split: outcome.splits)

lemma sign_count:
  "metrics_count (snd (simulate_sign w st user pp ips jid path s)) =
     metrics_count s + responded (fst (simulate_sign w st user pp ips jid path s))"
  "raised_user (fst (simulate_sign w st user pp ips jid path s)) \<noteq> Some None"
  by (auto simp: simulate_sign_def read_clock_eq Let_def metrics_count_simps record_count
      split: outcome.splits option.splits)

lemma verify_count:
  "metrics_count (snd (simulate_verify w st user pp ips jid path s)) =
     metrics_count s + responded (fst (simulate_verify w st user pp ips jid path s))"
  "raised_user (fst (simulate_verify w st user pp ips jid path s)) \<noteq> Some None"
  by (auto simp: simulate_verify_def read_clock_eq Let_def metrics_count_simps sign_count
      split: outcome.splits option.splits)

lemma store_count:
  "metrics_count (snd (simulate_store w st user pp ips jid g s)) =
     metrics_count s + responded (fst (simulate_store w st user pp ips jid g s))"
  "raised_user (fst (simulate_store w st user pp ips jid g s)) \<noteq> Some None"
  by (auto simp: simulate_store_def read_clock_eq Let_def metrics_count_simps verify_count
      split: outcome.splits option.splits)

lemma generate_count:
  "metrics_count (snd (simulate_generate w st tok user pp ips s)) =
     metrics_count s + responded (fst (simulate_generate w st tok user pp ips s))"
  "raised_user (fst (simulate_generate w st tok user pp ips s)) \<noteq> Some None"
  by (auto simp: simulate_generate_def read_clock_eq Let_def metrics_count_simps store_count
      split: outcome.splits option.splits)

lemma denied_count:
  "metrics_count (snd (simulate_denied w st user which got s)) = metrics_count s + 1"
  "responded (fst (simulate_denied w st user which got s)) = 1"
  "raised_user (fst (simulate_denied w st user which got s)) = None"
  by (simp_all add: simulate_denied_def read_clock_eq Let_def metrics_count_simps)

lemma ownership_count:
  "metrics_count (snd (simulate_ownership w st tok user b s)) =
     metrics_count s + responded (fst (simulate_ownership w st tok user b s))"
  "raised_user (fst (simulate_ownership w st tok user b s)) \<noteq> Some None"
  by (auto simp: simulate_ownership_def Let_def denied_count generate_count
      split: option.splits)

lemma try_count_resolved:
  assumes "identity_resolved w req"
  shows "metrics_count (snd (simulate_try w st req s)) =
           metrics_count s + responded (fst (simulate_try w st req s))"
    and "raised_user (fst (simulate_try w st req s)) \<noteq> Some None"
  using assms
  by (auto simp: identity_resolved_def simulate_try_def Let_def metrics_count_simps ownership_count
      split: option.splits outcome.splits)

lemma try_count_unresolved:
  assumes "\<not> identity_resolved w req"
  shows "metrics_count (snd (simulate_try w st req s)) = metrics_count s"
    and "raised_user (fst (simulate_try w st req s)) \<in> {None, Some None}"
  using assms
  by (auto simp: identity_resolved_def simulate_try_def Let_def metrics_count_simps
      split: option.splits outcome.splits)

text \<open>
  Claim C7, as stated, fails: a submission without an \<open>Authorization\<close> header is
  answered 401 and no metrics row is inserted.
\<close>

theorem metrics_without_identity_counterexample:
  "status_of (fst (simulate_POST demo_world \<lparr>authorization = None, body = body demo_submission\<rparr>)) = 401 \<and>
   length (metrics_inserts (trace (snd (simulate_POST demo_world
      \<lparr>authorization = None, body = body demo_submission\<rparr>)))) = 0"
  by (simp add: simulate_POST_def simulate_try_def read_clock_eq initial_state_def
      metrics_inserts_def)

text \<open>
  Claim C7, amended. A submission issues exactly one insert into the metrics table when
  the bearer token resolves to a user (whatever happens afterwards: denial, generation
  failure, storage, verification or signing failure, success, or an exception caught by
  the handler), and none when it does not (missing or malformed header, token rejected,
  or the token check itself throws). It never issues more than one.
\<close>

theorem metrics_once_per_identified_request:
  "length (metrics_inserts (trace (snd (simulate_POST w req)))) =
     (if identity_resolved w req then 1 else 0)"
proof -
  define s0 where "s0 = initial_state\<lparr>reads := 1\<rparr>"
  define r where "r = simulate_try w (date_now w 0) req s0"
  have m0: "metrics_count s0 = 0"
    by (simp add: s0_def metrics_count_def initial_state_def metrics_inserts_def)
  have P: "simulate_POST w req =
     (case r of
           (Responded resp, s) \<Rightarrow> (resp, s)
         | (Raised e user jobId, s) \<Rightarrow>
             let (now, s1) = read_clock w s;
                 duration = now - date_now w 0;
                 s2 = (case user of
                         Some u \<Rightarrow>
                           recordSimulationMetrics w (truthy jobId) (user_id u) duration ''error''
                             (''Error: '' @ (case e of Some msg \<Rightarrow> msg | None \<Rightarrow> ''Unknown error'')) s1
                       | None \<Rightarrow> s1)
             in (Json 500 [(''success'', JBool False),
                           (''error'', JStr ''Internal server error during simulation''),
                           (''duration_ms'', JNum duration)], s2))"
    by (simp add: simulate_POST_def read_clock_eq initial_state_def r_def s0_def)
  show ?thesis
  proof (cases "identity_resolved w req")
    case True
    from try_count_resolved[OF True, of "date_now w 0" s0]
    have "metrics_count (snd r) = responded (fst r)" "raised_user (fst r) \<noteq> Some None"
      by (simp_all add: r_def m0)
    then have "metrics_count (snd (simulate_POST w req)) = 1"
      unfolding P
      by (cases r; cases "fst r")
         (auto simp: read_clock_eq metrics_count_simps Let_def split: option.splits)
    with True show ?thesis by (simp add: metrics_count_def)
  next
    case False
    from try_count_unresolved[OF False, of "date_now w 0" s0]
    have "metrics_count (snd r) = 0" "raised_user (fst r) \<in> {None, Some None}"
      by (simp_all add: r_def m0)
    then have "metrics_count (snd (simulate_POST w req)) = 0"
      unfolding P
      by (cases r; cases "fst r")
         (auto simp: read_clock_eq metrics_count_simps Let_def split: option.splits)
    with False show ?thesis by (simp add: metrics_count_def)
  qed
qed

text \<open>
  The amended statement in \<open>demo_world\<close>: the submission of user \<open>u1\<close> issues one metrics
  insert, the same submission with an unknown token none.
\<close>

theorem metrics_once_per_identified_request_witness:
  "identity_resolved demo_world demo_submission \<and>
   length (metrics_inserts (trace (snd (simulate_POST demo_world demo_submission)))) = 1 \<and>
   \<not> identity_resolved demo_world (demo_submission\<lparr>authorization := Some ''Bearer nobody''\<rparr>) \<and>
   length (metrics_inserts (trace (snd (simulate_POST demo_world
      (demo_submission\<lparr>authorization := Some ''Bearer nobody''\<rparr>))))) = 0"
proof -
  have t: "token_of ''Bearer nobody'' = Some ''nobody''"
    by (simp add: token_of_def nth_opt_def)
  have a: "identity_resolved demo_world demo_submission"
    by (simp add: identity_resolved_def demo_submission_def startsWith_def demo_token1 demo_world_def)
  have b: "\<not> identity_resolved demo_world (demo_submission\<lparr>authorization := Some ''Bearer nobody''\<rparr>)"
    by (simp add: identity_resolved_def demo_submission_def startsWith_def t demo_world_def)
  from a b metrics_once_per_identified_request[of demo_world demo_submission]
    metrics_once_per_identified_request[of demo_world
      "demo_submission\<lparr>authorization := Some ''Bearer nobody''\<rparr>"]
  show ?thesis by simp
qed

section \<open>Lifetime of signed URLs\<close>

























end
